theory Spec2Isabelle
  imports Complex_Main
begin

section \<open>Errors raised by the timing engine\<close>

text \<open>
  Every \<^verbatim>\<open>raise\<close> of the Python source is a value of this type. The
  \<^verbatim>\<open>RuntimeError\<close>s of the source are told apart by their message; the other
  constructors are the built-in exceptions that the interpreter or numpy raise.
\<close>

datatype error =
    Overlapping_timeslot      \<comment> \<open>\<^verbatim>\<open>RuntimeError('Tried fitting overlapping timeslot')\<close>\<close>
  | Insufficient_time         \<comment> \<open>\<^verbatim>\<open>RuntimeError('Insufficient time')\<close>\<close>
  | Unset_duration            \<comment> \<open>\<^verbatim>\<open>RuntimeError('Tried fetching unset duration.')\<close>\<close>
  | A_MSDU_exceeded int int   \<comment> \<open>\<^verbatim>\<open>RuntimeError(f"A-MSDU exceeded max size {..} (max {..})")\<close>\<close>
  | BER_unattainable rat rat  \<comment> \<open>\<^verbatim>\<open>RuntimeError(f'BER {max_BER} unattainable at {Eb_N0} dB.')\<close>\<close>
  | Negative_user_DATA_SP     \<comment> \<open>\<^verbatim>\<open>RuntimeError('Negative user DATA-SP duration.')\<close>\<close>
  | AttributeError
  | KeyError
  | IndexError
  | ValueError
  | ZeroDivisionError

section \<open>The free-time tracker of \<^verbatim>\<open>core/timeslot.py\<close>\<close>

text \<open>
  \<^verbatim>\<open>AvailableTime.available_time\<close> is a Python list of (start, stop) tuples. The
  class only compares the time stamps, so the model is polymorphic in a linear order:
  the time stamps are Python integers in the class's documentation and fractions in the
  schedule generator.
\<close>

type_synonym 'a available_time = "('a \<times> 'a) list"

definition AvailableTime :: "'a \<Rightarrow> 'a \<Rightarrow> 'a available_time" where
  "AvailableTime t_start t_end = [(t_start, t_end)]"

text \<open>
  The loop \<^verbatim>\<open>for at_idx, at in enumerate(self.available_time)\<close>: the first
  argument is the running index.
\<close>

fun scan_available_time ::
  "nat \<Rightarrow> ('a::linorder) available_time \<Rightarrow> 'a \<Rightarrow> 'a \<Rightarrow> error + nat" where
  "scan_available_time at_idx [] t_start t_end = Inl Insufficient_time"
| "scan_available_time at_idx (slot # ats) t_start t_end =
     (let check0 = (t_start \<ge> fst slot \<and> t_start \<le> snd slot);
          check1 = (t_end \<ge> fst slot \<and> t_end \<le> snd slot)
      in if check0 \<and> check1 then Inr at_idx
         else if check0 \<or> check1 then Inl Overlapping_timeslot
         else scan_available_time (Suc at_idx) ats t_start t_end)"

definition get_available_time_idx ::
  "('a::linorder) available_time \<Rightarrow> 'a \<Rightarrow> 'a \<Rightarrow> error + nat" where
  "get_available_time_idx available_time t_start t_end =
     scan_available_time 0 available_time t_start t_end"

definition allocate_available_time ::
  "('a::linorder) available_time \<Rightarrow> 'a \<Rightarrow> 'a \<Rightarrow> error + 'a available_time" where
  "allocate_available_time available_time t_start t_end =
     (case get_available_time_idx available_time t_start t_end of
        Inl e \<Rightarrow> Inl e
      | Inr idx \<Rightarrow>
          if t_start = fst (available_time ! idx) \<and> t_end = snd (available_time ! idx)
          then Inr (take idx available_time @ drop (Suc idx) available_time)
          else if t_start = fst (available_time ! idx)
          then Inr (available_time[idx := (t_end, snd (available_time ! idx))])
          else if t_end = snd (available_time ! idx)
          then Inr (available_time[idx := (fst (available_time ! idx), t_start)])
          else Inr (take idx available_time
                    @ [(fst (available_time ! idx), t_start), (t_end, snd (available_time ! idx))]
                    @ drop (Suc idx) available_time))"

section \<open>Numbers\<close>

text \<open>
  Python integers are \<^typ>\<open>int\<close>. The floating-point values of the source (results of
  \<^verbatim>\<open>/\<close>, of numpy functions, the constant \<^verbatim>\<open>SYMBOL_RATE_GHZ = 1.76\<close>) are
  modelled by exact rationals: the model computes the real-number value that the
  double-precision result approximates.
\<close>

text \<open>\<^verbatim>\<open>round\<close> and \<^verbatim>\<open>np.round\<close>: to the nearest integer, halves to the even one.\<close>

definition py_round :: "rat \<Rightarrow> int" where
  "py_round x =
     (let f = \<lfloor>x\<rfloor>; d = x - of_int f
      in if d < 1 / 2 then f else if d > 1 / 2 then f + 1
         else if even f then f else f + 1)"

text \<open>\<^verbatim>\<open>int(x)\<close> of a float: truncation towards zero.\<close>

definition py_int :: "rat \<Rightarrow> int" where
  "py_int x = (if x \<ge> 0 then \<lfloor>x\<rfloor> else \<lceil>x\<rceil>)"

text \<open>
  Subscription \<^verbatim>\<open>xs[i]\<close> of a Python list: positions from the front for
  \<open>i \<ge> 0\<close>, from the back for \<open>i < 0\<close>, and an exception outside both ranges.
\<close>

definition py_index :: "'a list \<Rightarrow> int \<Rightarrow> error + 'a" where
  "py_index xs i =
     (if 0 \<le> i \<and> i < int (length xs) then Inr (xs ! nat i)
      else if i < 0 \<and> - int (length xs) \<le> i then Inr (xs ! nat (int (length xs) + i))
      else Inl IndexError)"

section \<open>Constants of \<^verbatim>\<open>core/constants.py\<close>\<close>

definition PPDU_PREAMBLE_LEN :: int where "PPDU_PREAMBLE_LEN = 3328"
definition PPDU_HEADER_LEN :: int where "PPDU_HEADER_LEN = 1024"
definition PPDU_GI_LENGTH :: int where "PPDU_GI_LENGTH = 64"
definition SYMBOL_RATE_GHZ :: rat where "SYMBOL_RATE_GHZ = 176 / 100"
definition N_CBPB :: "int list" where "N_CBPB = [448, 896, 1792, 2688]"
definition CONTROL_PPDU_PREAMBLE_LEN :: int where "CONTROL_PPDU_PREAMBLE_LEN = 7552"
definition CONTROL_PPDU_HEADER_LEN :: int where "CONTROL_PPDU_HEADER_LEN = 40"
definition L_CWD :: int where "L_CWD = 168"
definition SIFS_NS :: int where "SIFS_NS = 3000"
definition DIFS_NS :: int where "DIFS_NS = 13000"
definition TXTIME_SSW :: int where "TXTIME_SSW = 14641"
definition SBIFS_NS :: int where "SBIFS_NS = 1000"
definition MBIFS_NS :: int where "MBIFS_NS = 3 * SIFS_NS"
definition LBIFS_NS :: int where "LBIFS_NS = TXTIME_SSW + 2 * SBIFS_NS"
definition MAX_A_MSDU_LENGTH :: int where "MAX_A_MSDU_LENGTH = 7935"
definition MAX_PSDU_LENGTH :: int where "MAX_PSDU_LENGTH = 262143"
definition MAX_PPDU_TIME :: int where "MAX_PPDU_TIME = 2000000"
definition AGC_AND_TRN_LENGTH :: int where "AGC_AND_TRN_LENGTH = 5312"
definition UE_TO_AP_DISTANCE_M :: int where "UE_TO_AP_DISTANCE_M = 5"

text \<open>
  \<^verbatim>\<open>MCS_TABLE\<close> is read from \<^verbatim>\<open>MCS_table.csv\<close>, which is data outside the
  source files: the table is a parameter of every function that reads it, a map from
  the scheme index to (modulation rate, code rate).
\<close>

type_synonym mcs_table = "rat \<rightharpoonup> rat \<times> rat"

section \<open>Frame sizes of \<^verbatim>\<open>core/helpers.py\<close>\<close>

definition calc_control_frame_ppdu_size :: "int \<Rightarrow> int" where
  "calc_control_frame_ppdu_size payload_bytes =
     (let N_cw = 1 + \<lceil>of_int ((payload_bytes - 6) * 8) / (of_int L_CWD :: rat)\<rceil>;
          num_of_parity_symbols = 168 * N_cw;
          num_of_data_symbols = (payload_bytes + 5) * 8;
          num_of_useful_symbols = (num_of_parity_symbols + num_of_data_symbols) * 32
      in CONTROL_PPDU_PREAMBLE_LEN + CONTROL_PPDU_HEADER_LEN + num_of_useful_symbols)"

definition calc_data_frame_ppdu_size :: "int \<Rightarrow> rat \<Rightarrow> rat \<Rightarrow> error + int" where
  "calc_data_frame_ppdu_size PSDU_length_bytes modulation_rate code_rate =
     (if 672 * code_rate = 0 then Inl ZeroDivisionError
      else
        let N_cw = of_int (PSDU_length_bytes * 8) / (672 * code_rate)
        in (case py_index N_CBPB (py_int (modulation_rate / 2)) of
              Inl e \<Rightarrow> Inl e
            | Inr N_cbpb \<Rightarrow>
                let N_blks = \<lceil>N_cw * 672 / of_int N_cbpb\<rceil>;
                    payload_size_symbols = N_blks * 512
                in Inr (PPDU_PREAMBLE_LEN + PPDU_HEADER_LEN + payload_size_symbols
                        + PPDU_GI_LENGTH)))"

definition calc_a_msdu_length :: "int \<Rightarrow> int \<Rightarrow> error + int" where
  "calc_a_msdu_length num_of_subframes subframe_length =
     (if num_of_subframes \<le> 1 then Inr subframe_length
      else
        let end_padding = subframe_length mod 4;
            a_msdu_length = num_of_subframes * (2 + subframe_length)
                            + (num_of_subframes - 1) * end_padding
        in if a_msdu_length > MAX_A_MSDU_LENGTH
           then Inl (A_MSDU_exceeded a_msdu_length MAX_A_MSDU_LENGTH)
           else Inr a_msdu_length)"

definition calc_a_mpdu_length :: "int \<Rightarrow> int \<Rightarrow> int" where
  "calc_a_mpdu_length num_of_subframes subframe_length =
     (if num_of_subframes \<le> 1 then subframe_length
      else
        let end_padding = subframe_length mod 4
        in num_of_subframes * (4 + subframe_length) + (num_of_subframes - 1) * end_padding)"

definition calc_data_mpdu_length :: "int \<Rightarrow> int option \<Rightarrow> int" where
  "calc_data_mpdu_length msdu_length ack_policy =
     (let mpdu_length = 16 + msdu_length
      in if ack_policy \<noteq> None then mpdu_length + 8 else mpdu_length)"

definition calc_max_a_mpdu_subframes :: "mcs_table \<Rightarrow> rat \<Rightarrow> int \<Rightarrow> error + int" where
  "calc_max_a_mpdu_subframes mcs_table mcs subframe_length =
     (case mcs_table mcs of
        None \<Rightarrow> Inl KeyError
      | Some (Rm, Rc) \<Rightarrow>
          let available_time = MAX_PPDU_TIME - 2509;
              num_of_symbols = py_int (of_int available_time * SYMBOL_RATE_GHZ);
              mpdu_octets = py_int (of_int num_of_symbols * 448 / 512 * Rm * Rc / 8);
              mpdu_octets = (if mpdu_octets > MAX_PSDU_LENGTH then MAX_PSDU_LENGTH
                             else mpdu_octets);
              padding = subframe_length mod 4
          in if 4 + subframe_length + padding = 0 then Inl ZeroDivisionError
             else Inr (py_int (of_int mpdu_octets / of_int (4 + subframe_length + padding))))"

section \<open>Beamforming allocations of \<^verbatim>\<open>core/helpers.py\<close>\<close>

text \<open>The line printed when the period exceeds the observed time, with its two numbers.\<close>

datatype notice = No_BFT_allocations int int

text \<open>\<^verbatim>\<open>np.roll(a, i)\<close>: a cyclic shift to the right by \<open>i\<close> places.\<close>

definition np_roll :: "'a list \<Rightarrow> nat \<Rightarrow> 'a list" where
  "np_roll a i = rotate (length a - i mod length a) a"

text \<open>
  The loop that spreads a fractional number of allocations per beacon interval:
  add the rate to the carry, store the integer part, keep the fraction.
\<close>

fun distribute_bft :: "rat \<Rightarrow> rat \<Rightarrow> nat \<Rightarrow> int list" where
  "distribute_bft bft_per_bi carry 0 = []"
| "distribute_bft bft_per_bi carry (Suc n) =
     (let carry = carry + bft_per_bi
      in py_int carry # distribute_bft bft_per_bi (carry - of_int \<lfloor>carry\<rfloor>) n)"

text \<open>
  The first argument stands for the value that \<^verbatim>\<open>np.random.randint(0, n)\<close>
  returns, a number below \<open>n\<close>; the call raises when \<open>n\<close> is not positive, and
  \<^verbatim>\<open>np.zeros\<close> raises for a negative length. The result pairs what was printed
  with the returned array or the exception.
\<close>

definition get_number_of_bft_allocations ::
  "nat \<Rightarrow> int \<Rightarrow> int \<Rightarrow> int \<Rightarrow> int \<Rightarrow> notice list \<times> (error + int list)" where
  "get_number_of_bft_allocations drawn num_of_observed_bi bi_duration bft_period num_of_users =
     (if num_of_observed_bi < 0 then ([], Inl ValueError)
      else
        let bft_per_bi_array = replicate (nat num_of_observed_bi) (0::int);
            multi_user = (\<lambda>a. fold (\<lambda>i acc. map2 (+) acc (np_roll a i))
                                  [0 ..< nat num_of_users] (map (\<lambda>_. 0) a))
        in if bft_period > num_of_observed_bi * bi_duration
           then
             let msg = No_BFT_allocations bft_period (num_of_observed_bi * bi_duration)
             in if num_of_observed_bi \<le> 0 then ([msg], Inl ValueError)
                else ([msg], Inr (multi_user (bft_per_bi_array[drawn := 1])))
           else if bft_period = 0 then ([], Inl ZeroDivisionError)
           else
             let bft_per_bi = of_int bi_duration / of_int bft_period
             in ([], Inr (multi_user (distribute_bft bft_per_bi 0 (nat num_of_observed_bi)))))"

section \<open>The duration generator of \<^verbatim>\<open>core/duration_generator.py\<close>\<close>

text \<open>
  An attribute of a Python object is absent, \<^verbatim>\<open>None\<close>, or holds a value. The
  class body gives five of the seven durations the default \<^verbatim>\<open>None\<close>; the guard
  time and the data-with-overhead duration exist only once their generator has
  assigned them.
\<close>

datatype 'a attribute = Absent | PyNone | Holds 'a

record DurationGenerator =
  guard_time_duration :: "int attribute"
  bti_duration :: "int attribute"
  bft_duration :: "rat attribute"
  data_ppdu_duration :: "int attribute"
  cts_duration :: "int attribute"
  ack_duration :: "int attribute"
  data_with_overhead_duration :: "int attribute"

definition DurationGenerator_init :: DurationGenerator where
  "DurationGenerator_init =
     \<lparr> guard_time_duration = Absent, bti_duration = PyNone, bft_duration = PyNone,
       data_ppdu_duration = PyNone, cts_duration = PyNone, ack_duration = PyNone,
       data_with_overhead_duration = Absent \<rparr>"

text \<open>
  Reading \<^verbatim>\<open>self.x\<close> raises \<^verbatim>\<open>AttributeError\<close> when the attribute is absent;
  \<^verbatim>\<open>check_existence_and_return_duration\<close> raises when it is \<^verbatim>\<open>None\<close>.
\<close>

definition check_existence_and_return_duration :: "'a attribute \<Rightarrow> error + 'a" where
  "check_existence_and_return_duration duration =
     (case duration of
        Absent \<Rightarrow> Inl AttributeError
      | PyNone \<Rightarrow> Inl Unset_duration
      | Holds d \<Rightarrow> Inr d)"

definition get_guard_time_duration :: "DurationGenerator \<Rightarrow> error + int" where
  "get_guard_time_duration dg = check_existence_and_return_duration (guard_time_duration dg)"

definition get_bti_duration :: "DurationGenerator \<Rightarrow> error + int" where
  "get_bti_duration dg = check_existence_and_return_duration (bti_duration dg)"

definition get_bft_duration :: "DurationGenerator \<Rightarrow> error + rat" where
  "get_bft_duration dg = check_existence_and_return_duration (bft_duration dg)"

definition get_data_ppdu_duration :: "DurationGenerator \<Rightarrow> error + int" where
  "get_data_ppdu_duration dg = check_existence_and_return_duration (data_ppdu_duration dg)"

definition get_cts_duration :: "DurationGenerator \<Rightarrow> error + int" where
  "get_cts_duration dg = check_existence_and_return_duration (cts_duration dg)"

definition get_ack_duration :: "DurationGenerator \<Rightarrow> error + int" where
  "get_ack_duration dg = check_existence_and_return_duration (ack_duration dg)"

definition get_data_with_overhead_duration :: "DurationGenerator \<Rightarrow> error + int" where
  "get_data_with_overhead_duration dg =
     check_existence_and_return_duration (data_with_overhead_duration dg)"

text \<open>The values that the generators compute, before they are stored.\<close>

definition guard_time_value :: "int \<Rightarrow> int" where
  "guard_time_value bi_duration =
     (let C = (20 / 10 ^ 6 :: rat); Tp = 100;
          duration_rounded_to_us = \<lceil>(C * of_int bi_duration + of_int SIFS_NS + Tp) / 10 ^ 3\<rceil>
      in duration_rounded_to_us * 10 ^ 3)"

definition bti_value :: "int \<Rightarrow> int" where
  "bti_value num_of_allocations =
     (let bf_payload_length = 66 + (2 + 15 * num_of_allocations) + 34;
          bti_ppdu_size = calc_control_frame_ppdu_size bf_payload_length
      in py_round (of_int bti_ppdu_size / SYMBOL_RATE_GHZ))"

definition bft_value :: "int \<Rightarrow> int \<Rightarrow> int \<Rightarrow> int \<Rightarrow> bool \<Rightarrow> bool \<Rightarrow> rat" where
  "bft_value i_antennas i_antenna_sectors r_antennas r_antenna_sectors enable_SLS enable_r_TXSS =
     (let of_bool_int = (\<lambda>b. if b then (1::int) else 0);
          sls =
            (if enable_SLS then
               (if enable_r_TXSS then
                  let i_ssw_slots = i_antennas * i_antenna_sectors * r_antennas;
                      r_ssw_slots = r_antennas * r_antenna_sectors * i_antennas;
                      ssw_ppdu_size = calc_control_frame_ppdu_size 24;
                      ssw_fbk_ppdu_size = calc_control_frame_ppdu_size 28;
                      ssw_ack_ppdu_size = calc_control_frame_ppdu_size 28;
                      ppdu_size_sum = ssw_ppdu_size * (i_ssw_slots + r_ssw_slots)
                                      + ssw_fbk_ppdu_size + ssw_ack_ppdu_size;
                      ppdu_time_sum = py_round (of_int ppdu_size_sum / SYMBOL_RATE_GHZ);
                      idle_time_sum =
                        SBIFS_NS * (i_antenna_sectors - 1) * i_antennas * r_antennas
                        + LBIFS_NS * i_antennas * r_antennas
                        + MBIFS_NS * 1
                        + SBIFS_NS * (r_antenna_sectors - 1) * r_antennas * i_antennas
                        + LBIFS_NS * i_antennas * r_antennas
                        + MBIFS_NS * of_bool_int (r_antennas = 1)
                        + LBIFS_NS * of_bool_int (r_antennas > 1)
                        + MBIFS_NS * of_bool_int (r_antennas = 1)
                        + LBIFS_NS * of_bool_int (r_antennas > 1)
                  in ppdu_time_sum + idle_time_sum
                else
                  let i_ssw_slots = i_antennas * i_antenna_sectors * r_antennas;
                      r_ssw_slots = 1;
                      ssw_ppdu_size = calc_control_frame_ppdu_size 24;
                      ssw_fbk_ppdu_size = calc_control_frame_ppdu_size 28;
                      ssw_ack_ppdu_size = calc_control_frame_ppdu_size 28;
                      ppdu_size_sum = ssw_ppdu_size * (i_ssw_slots + r_ssw_slots)
                                      + ssw_fbk_ppdu_size + ssw_ack_ppdu_size;
                      ppdu_time_sum = py_round (of_int ppdu_size_sum / SYMBOL_RATE_GHZ);
                      idle_time_sum =
                        SBIFS_NS * (i_antenna_sectors - 1) * i_antennas * r_antennas
                        + LBIFS_NS * i_antennas * r_antennas
                        + MBIFS_NS * 1
                        + 0
                        + 0
                        + MBIFS_NS * of_bool_int (r_antennas = 1)
                        + LBIFS_NS * of_bool_int (r_antennas > 1)
                        + MBIFS_NS * of_bool_int (r_antennas = 1)
                        + LBIFS_NS * of_bool_int (r_antennas > 1)
                  in ppdu_time_sum + idle_time_sum)
               + SIFS_NS
             else 0);
          brp_sector_quota = (25 / 100 :: rat);
          i_brp_sectors = \<lceil>of_int i_antenna_sectors * brp_sector_quota\<rceil>;
          i_brp_sectors = (if i_brp_sectors < 2 then 2 else i_brp_sectors);
          r_brp_sectors = \<lceil>of_int r_antenna_sectors * brp_sector_quota\<rceil>;
          r_brp_sectors = (if r_brp_sectors < 2 then 2 else r_brp_sectors);
          brp_duration =
            of_int (calc_control_frame_ppdu_size 42 + i_brp_sectors * AGC_AND_TRN_LENGTH
                    + calc_control_frame_ppdu_size 42 + r_brp_sectors * AGC_AND_TRN_LENGTH)
            / SYMBOL_RATE_GHZ;
          brp_duration = brp_duration + of_int SIFS_NS
      in of_int sls + brp_duration)"

definition cts_value :: int where
  "cts_value = py_round (of_int (calc_control_frame_ppdu_size 20) / SYMBOL_RATE_GHZ)"

definition ack_value :: "int \<Rightarrow> int" where
  "ack_value num_of_mpdu =
     (let ack_payload_length = (if num_of_mpdu = 1 then 14 else 32);
          ppdu_size = calc_control_frame_ppdu_size ack_payload_length
      in py_round (of_int ppdu_size / SYMBOL_RATE_GHZ))"

text \<open>The generators: each stores its value in the generator's state.\<close>

definition generate_guard_time_duration :: "int \<Rightarrow> DurationGenerator \<Rightarrow> DurationGenerator" where
  "generate_guard_time_duration bi_duration dg =
     dg\<lparr>guard_time_duration := Holds (guard_time_value bi_duration)\<rparr>"

definition generate_bti_duration :: "int \<Rightarrow> DurationGenerator \<Rightarrow> DurationGenerator" where
  "generate_bti_duration num_of_allocations dg =
     dg\<lparr>bti_duration := Holds (bti_value num_of_allocations)\<rparr>"

definition generate_bft_duration ::
  "int \<Rightarrow> int \<Rightarrow> int \<Rightarrow> int \<Rightarrow> bool \<Rightarrow> bool \<Rightarrow> DurationGenerator \<Rightarrow> DurationGenerator" where
  "generate_bft_duration i_antennas i_antenna_sectors r_antennas r_antenna_sectors
       enable_SLS enable_r_TXSS dg =
     dg\<lparr>bft_duration := Holds (bft_value i_antennas i_antenna_sectors r_antennas
                                   r_antenna_sectors enable_SLS enable_r_TXSS)\<rparr>"

definition generate_data_ppdu_duration ::
  "mcs_table \<Rightarrow> int \<Rightarrow> rat \<Rightarrow> DurationGenerator \<Rightarrow> error + DurationGenerator" where
  "generate_data_ppdu_duration mcs_table payload_length mcs dg =
     (case mcs_table mcs of
        None \<Rightarrow> Inl KeyError
      | Some (Rm, Rc) \<Rightarrow>
          (case calc_data_frame_ppdu_size payload_length Rm Rc of
             Inl e \<Rightarrow> Inl e
           | Inr ppdu_size \<Rightarrow>
               Inr (dg\<lparr>data_ppdu_duration :=
                          Holds (py_round (of_int ppdu_size / SYMBOL_RATE_GHZ))\<rparr>)))"

definition generate_cts_duration :: "DurationGenerator \<Rightarrow> DurationGenerator" where
  "generate_cts_duration dg = dg\<lparr>cts_duration := Holds cts_value\<rparr>"

definition generate_ack_duration :: "int \<Rightarrow> DurationGenerator \<Rightarrow> DurationGenerator" where
  "generate_ack_duration num_of_mpdu dg = dg\<lparr>ack_duration := Holds (ack_value num_of_mpdu)\<rparr>"

definition generate_data_with_overhead_duration ::
  "bool \<Rightarrow> bool \<Rightarrow> DurationGenerator \<Rightarrow> error + DurationGenerator" where
  "generate_data_with_overhead_duration enable_cts enable_ack dg =
     (case get_data_ppdu_duration dg of
        Inl e \<Rightarrow> Inl e
      | Inr data \<Rightarrow>
          (case (if enable_cts
                 then map_sum id (\<lambda>cts. data + DIFS_NS + (cts + SIFS_NS)) (get_cts_duration dg)
                 else Inr (data + DIFS_NS)) of
             Inl e \<Rightarrow> Inl e
           | Inr duration \<Rightarrow>
               (case (if enable_ack
                      then map_sum id (\<lambda>ack. duration + (ack + SIFS_NS)) (get_ack_duration dg)
                      else Inr duration) of
                  Inl e \<Rightarrow> Inl e
                | Inr duration \<Rightarrow> Inr (dg\<lparr>data_with_overhead_duration := Holds duration\<rparr>))))"

text \<open>
  A caller's view of the generator: the seven kinds of duration, the calls that generate
  them, and a run of calls in which a call that raises leaves the state as it was.
\<close>

datatype kind = Guard_time | BTI | BFT | Data_PPDU | CTS | ACK | Data_with_overhead

datatype generate_call =
    Generate_guard_time int
  | Generate_bti int
  | Generate_bft int int int int bool bool
  | Generate_data_ppdu int rat
  | Generate_cts
  | Generate_ack int
  | Generate_data_with_overhead bool bool

fun kind_of :: "generate_call \<Rightarrow> kind" where
  "kind_of (Generate_guard_time _) = Guard_time"
| "kind_of (Generate_bti _) = BTI"
| "kind_of (Generate_bft _ _ _ _ _ _) = BFT"
| "kind_of (Generate_data_ppdu _ _) = Data_PPDU"
| "kind_of Generate_cts = CTS"
| "kind_of (Generate_ack _) = ACK"
| "kind_of (Generate_data_with_overhead _ _) = Data_with_overhead"

fun generate :: "mcs_table \<Rightarrow> generate_call \<Rightarrow> DurationGenerator \<Rightarrow> error + DurationGenerator" where
  "generate t (Generate_guard_time bi) dg = Inr (generate_guard_time_duration bi dg)"
| "generate t (Generate_bti n) dg = Inr (generate_bti_duration n dg)"
| "generate t (Generate_bft ia ias ra ras sls rtxss) dg =
     Inr (generate_bft_duration ia ias ra ras sls rtxss dg)"
| "generate t (Generate_data_ppdu len mcs) dg = generate_data_ppdu_duration t len mcs dg"
| "generate t Generate_cts dg = Inr (generate_cts_duration dg)"
| "generate t (Generate_ack n) dg = Inr (generate_ack_duration n dg)"
| "generate t (Generate_data_with_overhead cts ack) dg =
     generate_data_with_overhead_duration cts ack dg"

fun run_calls :: "mcs_table \<Rightarrow> generate_call list \<Rightarrow> DurationGenerator \<Rightarrow> DurationGenerator" where
  "run_calls t [] dg = dg"
| "run_calls t (c # cs) dg =
     (case generate t c dg of Inl e \<Rightarrow> run_calls t cs dg | Inr dg' \<Rightarrow> run_calls t cs dg')"

text \<open>The getter of a kind; the values are returned as rationals to give one type.\<close>

fun get_duration :: "kind \<Rightarrow> DurationGenerator \<Rightarrow> error + rat" where
  "get_duration Guard_time dg = map_sum id of_int (get_guard_time_duration dg)"
| "get_duration BTI dg = map_sum id of_int (get_bti_duration dg)"
| "get_duration BFT dg = get_bft_duration dg"
| "get_duration Data_PPDU dg = map_sum id of_int (get_data_ppdu_duration dg)"
| "get_duration CTS dg = map_sum id of_int (get_cts_duration dg)"
| "get_duration ACK dg = map_sum id of_int (get_ack_duration dg)"
| "get_duration Data_with_overhead dg = map_sum id of_int (get_data_with_overhead_duration dg)"

section \<open>Sequencing of calls that may raise\<close>

definition and_then :: "error + 'a \<Rightarrow> ('a \<Rightarrow> error + 'b) \<Rightarrow> error + 'b" where
  "and_then r f = (case r of Inl e \<Rightarrow> Inl e | Inr v \<Rightarrow> f v)"

section \<open>numpy array functions used by the schedule generator\<close>

text \<open>\<^verbatim>\<open>np.linspace(start, stop, num, endpoint=False)\<close>.\<close>

definition np_linspace :: "rat \<Rightarrow> rat \<Rightarrow> nat \<Rightarrow> rat list" where
  "np_linspace start stop num =
     map (\<lambda>i. start + of_nat i * ((stop - start) / of_nat num)) [0 ..< num]"

text \<open>\<^verbatim>\<open>np.arange(start, stop, step)\<close> for a positive step: the end is excluded.\<close>

definition np_arange :: "rat \<Rightarrow> rat \<Rightarrow> rat \<Rightarrow> rat list" where
  "np_arange start stop step =
     map (\<lambda>i. start + of_nat i * step) [0 ..< nat \<lceil>(stop - start) / step\<rceil>]"

text \<open>\<^verbatim>\<open>np.repeat(a, k)\<close>: every element \<open>k\<close> times in a row.\<close>

definition np_repeat :: "'a list \<Rightarrow> nat \<Rightarrow> 'a list" where
  "np_repeat a k = concat (map (replicate k) a)"

text \<open>\<^verbatim>\<open>np.resize([-1, 1], size)\<close>: the two signs in turn.\<close>

definition alternating_signs :: "nat \<Rightarrow> rat list" where
  "alternating_signs n = map (\<lambda>j. if even j then - 1 else 1) [0 ..< n]"

text \<open>\<^verbatim>\<open>a.resize(a.size / 2, 2)\<close>: consecutive elements as rows of two.\<close>

fun rows_of_two :: "'a list \<Rightarrow> ('a \<times> 'a) list" where
  "rows_of_two (a # b # xs) = (a, b) # rows_of_two xs"
| "rows_of_two _ = []"

text \<open>
  \<^verbatim>\<open>np.unique(a, return_index=True)\<close>: the distinct values in increasing order,
  each with the index of its first occurrence.
\<close>

definition np_unique_index :: "int list \<Rightarrow> (int \<times> nat) list" where
  "np_unique_index a =
     map (\<lambda>v. (v, length (takeWhile (\<lambda>x. x \<noteq> v) a))) (sort (remdups a))"

section \<open>The studies of \<^verbatim>\<open>core/inOutStudy.py\<close>\<close>

datatype mobility = Static | Linear int | Angular int

record study =
  bi_duration :: int
  num_of_observed_bi :: int
  dg :: DurationGenerator
  mcs :: rat
  num_of_users :: int
  num_of_bft_allocations :: "int list"
  num_of_data_allocations :: "int list"
  msdu_length_bytes :: int
  num_of_a_msdu_subframes :: int
  mpdu_length_bytes :: int
  num_of_a_mpdu_subframes :: int
  psdu_length_bytes :: int
  enable_cts :: bool
  enable_ack :: bool

text \<open>The boundaries of the data service periods of a beacon interval.\<close>

definition data_sp_slots :: "rat \<Rightarrow> rat \<Rightarrow> int \<Rightarrow> rat \<Rightarrow> rat \<Rightarrow> (rat \<times> rat) list" where
  "data_sp_slots begin end num_of_alloc bft gt =
     (let inter = np_repeat (tl (np_linspace begin end (nat num_of_alloc))) 2;
          inter = map2 (\<lambda>x s. x + s * bft * (1 / 2)) inter (alternating_signs (length inter));
          inter = map2 (\<lambda>x s. x + s * gt) inter (alternating_signs (length inter))
      in rows_of_two ([begin] @ inter @ [end]))"

text \<open>The arrival times within one data service period.\<close>

definition sp_arrivals ::
  "rat \<times> rat \<Rightarrow> int \<Rightarrow> int \<Rightarrow> int \<Rightarrow> int \<Rightarrow> int \<Rightarrow> error + rat list" where
  "sp_arrivals ds first_psdu_arrival_offset psdu_arrival_period users gt num_of_msdu_per_psdu =
     (let first_msdu_arrival = fst ds + of_int first_psdu_arrival_offset;
          last_possible_msdu_arrival = snd ds
      in if users > 1 then
           let multi_user_shortening = (snd ds - fst ds) * (1 - 1 / of_int users);
               multi_user_shortening = multi_user_shortening + of_int gt / 2;
               last_possible_msdu_arrival = last_possible_msdu_arrival - multi_user_shortening
           in if last_possible_msdu_arrival < first_msdu_arrival
              then Inl Negative_user_DATA_SP
              else Inr (np_repeat (np_arange first_msdu_arrival last_possible_msdu_arrival
                                     (of_int psdu_arrival_period))
                          (nat num_of_msdu_per_psdu))
         else Inr (np_repeat (np_arange first_msdu_arrival last_possible_msdu_arrival
                                (of_int psdu_arrival_period))
                     (nat num_of_msdu_per_psdu)))"

text \<open>The loop over the service periods: the arrays are concatenated, a raise ends it.\<close>

fun concat_arrivals :: "(error + rat list) list \<Rightarrow> error + rat list" where
  "concat_arrivals [] = Inr []"
| "concat_arrivals (r # rs) =
     and_then r (\<lambda>xs. and_then (concat_arrivals rs) (\<lambda>ys. Inr (xs @ ys)))"

text \<open>Results of a list of steps, in order, up to the first that raises.\<close>

fun collect :: "(error + 'a) list \<Rightarrow> error + 'a list" where
  "collect [] = Inr []"
| "collect (r # rs) = and_then r (\<lambda>x. and_then (collect rs) (\<lambda>xs. Inr (x # xs)))"

text \<open>
  The period between consecutive frames of a data service period, and the offset of the
  first arrival in it. Python evaluates the three getters whatever the flags are.
\<close>

definition psdu_arrival_period :: "study \<Rightarrow> error + int" where
  "psdu_arrival_period s =
     and_then (get_cts_duration (dg s)) (\<lambda>cts.
     and_then (get_data_ppdu_duration (dg s)) (\<lambda>data.
     and_then (get_ack_duration (dg s)) (\<lambda>ack.
       Inr ((if enable_cts s then 1 else 0) * (cts + SIFS_NS) + data
            + (if enable_ack s then 1 else 0) * (SIFS_NS + ack) + DIFS_NS))))"

definition first_psdu_arrival_offset :: "study \<Rightarrow> error + int" where
  "first_psdu_arrival_offset s =
     and_then (get_cts_duration (dg s)) (\<lambda>cts.
     and_then (get_data_ppdu_duration (dg s)) (\<lambda>data.
       Inr ((if enable_cts s then 1 else 0) * (cts + SIFS_NS) + data)))"

text \<open>
  The body of the first loop of \<^verbatim>\<open>FastInOutStudy.run\<close>: the arrival times,
  relative to the start of the beacon interval, for one number of allocations;
  \<open>begin_idx\<close> is the entry of \<^verbatim>\<open>begin\<close> at the first interval with that number.
\<close>

definition arrivals_in_bi ::
  "study \<Rightarrow> int \<Rightarrow> int \<Rightarrow> int \<Rightarrow> int \<Rightarrow> int \<Rightarrow> int \<Rightarrow> error + rat list" where
  "arrivals_in_bi s period offset gt begin_idx end num_of_alloc =
     and_then (get_bft_duration (dg s)) (\<lambda>bft.
       concat_arrivals
         (map (\<lambda>ds. sp_arrivals ds offset period (num_of_users s) gt
                       (num_of_a_msdu_subframes s * num_of_a_mpdu_subframes s))
            (data_sp_slots (of_int begin_idx) (of_int end) num_of_alloc bft (of_int gt))))"

text \<open>
  \<^verbatim>\<open>FastInOutStudy.run\<close>. The call \<^verbatim>\<open>generate_bti_duration\<close> receives the array
  of allocation counts and numpy applies the formula to each element, so \<^verbatim>\<open>begin\<close>
  is an array with one entry per beacon interval. The first loop fills the dictionary
  \<^verbatim>\<open>t_msdu_arrival_rel\<close>, one entry per distinct allocation count; the second loop
  shifts the entry of every beacon interval by the start of that interval. The result
  is \<^verbatim>\<open>None\<close> when there is no beacon interval.
\<close>

definition FastInOutStudy_run :: "study \<Rightarrow> error + rat list option" where
  "FastInOutStudy_run s =
     (let gt = guard_time_value (bi_duration s);
          begin = map (\<lambda>noa. bti_value noa + gt) (num_of_data_allocations s);
          end = bi_duration s - gt
      in and_then (psdu_arrival_period s) (\<lambda>period.
         and_then (first_psdu_arrival_offset s) (\<lambda>offset.
         and_then
           (collect
              (map (\<lambda>(num_of_alloc, unique_idx).
                 and_then (arrivals_in_bi s period offset gt (begin ! unique_idx) end
                             num_of_alloc)
                   (\<lambda>t_msdu_arrival. Inr (num_of_alloc, t_msdu_arrival)))
               (np_unique_index (num_of_data_allocations s))))
           (\<lambda>t_msdu_arrival_rel.
              and_then
                (collect
                   (map (\<lambda>(bi_idx, num_of_alloc).
                      (case map_of t_msdu_arrival_rel num_of_alloc of
                         None \<Rightarrow> Inl KeyError
                       | Some rel \<Rightarrow>
                           Inr (map (\<lambda>t. t + of_int (int bi_idx * bi_duration s)) rel)))
                    (enumerate 0 (num_of_data_allocations s))))
                (\<lambda>blocks. Inr (if blocks = [] then None else Some (concat blocks)))))))"

text \<open>What a study reports: throughput and the two arrays of time stamps.\<close>

record metrics =
  throughput :: rat
  t_msdu_generated :: "rat list"
  t_msdu_arrival :: "rat list"

text \<open>
  The adjustment of the generation times that both studies share: shift by the most
  negative latency, then by the CTS overhead and the duration of the data frame.
\<close>

definition shift_generated :: "study \<Rightarrow> rat list \<Rightarrow> rat list \<Rightarrow> error + rat list" where
  "shift_generated s generated arrival =
     (if arrival = [] then Inl ValueError
      else
        let msdu_latency = map2 (-) arrival generated;
            m = Min (set msdu_latency);
            generated = (if m < 0 then map (\<lambda>t. t + m) generated else generated)
        in and_then
             (if enable_cts s
              then and_then (get_cts_duration (dg s))
                     (\<lambda>cts. Inr (map (\<lambda>t. t - of_int (cts + SIFS_NS)) generated))
              else Inr generated)
             (\<lambda>generated.
                and_then (get_data_ppdu_duration (dg s))
                  (\<lambda>data. Inr (map (\<lambda>t. t - of_int data) generated))))"

definition FastInOutStudy_calc_performance_metrics ::
  "study \<Rightarrow> rat list option \<Rightarrow> error + metrics" where
  "FastInOutStudy_calc_performance_metrics s arrival =
     (case arrival of
        None \<Rightarrow> Inl AttributeError
      | Some t_arrival \<Rightarrow>
          let num_of_msdu = length t_arrival
          in if bi_duration s * num_of_observed_bi s = 0 then Inl ZeroDivisionError
             else
               let thr = of_int (int num_of_msdu * msdu_length_bytes s * 8)
                         / of_int (bi_duration s * num_of_observed_bi s);
                   generated = np_linspace 0 (of_int (bi_duration s * num_of_observed_bi s))
                                 num_of_msdu
               in and_then (shift_generated s generated t_arrival)
                    (\<lambda>generated. Inr \<lparr> throughput = thr, t_msdu_generated = generated,
                                        t_msdu_arrival = t_arrival \<rparr>))"

text \<open>
  The set-up of a study, in the order of \<^verbatim>\<open>simulate_single\<close> of
  \<^verbatim>\<open>core/studyExecutor.py\<close>.
\<close>

record single_config =
  cfg_Eb_N0 :: rat
  cfg_allowed_err :: rat
  cfg_num_of_users :: int
  cfg_num_of_ue_antennas :: int
  cfg_num_of_antenna_sectors :: int
  cfg_enalbe_sls :: bool
  cfg_enable_r_txss :: bool
  cfg_mobility :: mobility
  cfg_msdu_length_bytes :: int
  cfg_msdu_max_agg :: bool
  cfg_mpdu_max_agg :: bool
  cfg_self_cts :: bool
  cfg_ack :: bool

text \<open>\<^verbatim>\<open>np.pi\<close>: the double-precision number nearest to \<open>\<pi>\<close>, a rational.\<close>

definition np_pi :: rat where
  "np_pi = 884279719003555 / 281474976710656"

text \<open>The beamforming period of \<^verbatim>\<open>set_num_of_data_sp_allocations\<close>.\<close>

definition bft_period_of :: "int \<Rightarrow> int \<Rightarrow> int \<Rightarrow> mobility \<Rightarrow> error + int" where
  "bft_period_of observed_bi bi sectors mob =
     (if sectors = 0 then Inl ZeroDivisionError
      else
        let sector_width = (360 / of_int sectors :: rat)
        in (case mob of
              Static \<Rightarrow> Inr (observed_bi * bi + 1)
            | Linear speed \<Rightarrow>
                if speed = 0 then Inl ZeroDivisionError
                else Inr (py_int (((np_pi * of_int UE_TO_AP_DISTANCE_M * sector_width * 10 ^ 9)
                                   / 180) / of_int speed))
            | Angular rate \<Rightarrow>
                if rate = 0 then Inl ZeroDivisionError
                else Inr (py_int (sector_width * 10 ^ 9 / of_int rate))))"

text \<open>
  The constructor and the setters. The first argument is the number drawn by the
  fallback of \<^verbatim>\<open>get_number_of_bft_allocations\<close>; the printed notices are returned
  with the study or the exception. The scheme selection \<^verbatim>\<open>get_optimal_mcs\<close> is a
  parameter, a function of the signal-to-noise point and the error-rate threshold for
  the error-rate table at hand: it reads an external table and its result rests on the
  double-precision rounding of \<^verbatim>\<open>np.log10\<close> and \<^verbatim>\<open>Series.round\<close>.
\<close>

definition InOutStudy_setup ::
  "nat \<Rightarrow> mcs_table \<Rightarrow> (rat \<Rightarrow> rat \<Rightarrow> error + rat) \<Rightarrow> int \<Rightarrow> int \<Rightarrow> single_config
     \<Rightarrow> notice list \<times> (error + study)" where
  "InOutStudy_setup drawn mcs_table get_optimal_mcs bi observed_bi c =
     (let dg0 = generate_cts_duration DurationGenerator_init
      in case get_optimal_mcs (cfg_Eb_N0 c) (cfg_allowed_err c) of
           Inl e \<Rightarrow> ([], Inl e)
         | Inr selected_mcs \<Rightarrow>
             let dg1 = generate_bft_duration (cfg_num_of_ue_antennas c)
                         (cfg_num_of_antenna_sectors c) 1 (cfg_num_of_antenna_sectors c)
                         (cfg_enalbe_sls c) (cfg_enable_r_txss c) dg0
             in (case bft_period_of observed_bi bi (cfg_num_of_antenna_sectors c)
                        (cfg_mobility c) of
                   Inl e \<Rightarrow> ([], Inl e)
                 | Inr bft_period \<Rightarrow>
                     let (notices, allocations) =
                           get_number_of_bft_allocations drawn observed_bi bi bft_period
                             (cfg_num_of_users c)
                     in (notices,
                         and_then allocations (\<lambda>bft_allocations.
                         and_then
                           (if cfg_msdu_max_agg c
                            then if cfg_msdu_length_bytes c = 0 then Inl ZeroDivisionError
                                 else Inr (py_int (of_int MAX_A_MSDU_LENGTH
                                                   / of_int (cfg_msdu_length_bytes c)))
                            else Inr 1) (\<lambda>a_msdu_subframes.
                         and_then (calc_a_msdu_length a_msdu_subframes (cfg_msdu_length_bytes c))
                           (\<lambda>a_msdu_length.
                         let mpdu_length = calc_data_mpdu_length a_msdu_length None
                         in and_then
                              (if cfg_mpdu_max_agg c
                               then calc_max_a_mpdu_subframes mcs_table selected_mcs mpdu_length
                               else Inr 1) (\<lambda>a_mpdu_subframes.
                            let psdu_length = calc_a_mpdu_length a_mpdu_subframes mpdu_length;
                                dg2 = generate_ack_duration a_mpdu_subframes dg1
                            in and_then (generate_data_ppdu_duration mcs_table psdu_length
                                           selected_mcs dg2) (\<lambda>dg3.
                               and_then (generate_data_with_overhead_duration (cfg_self_cts c)
                                           (cfg_ack c) dg3) (\<lambda>dg4.
                                 Inr \<lparr> bi_duration = bi, num_of_observed_bi = observed_bi,
                                       dg = dg4, mcs = selected_mcs,
                                       num_of_users = cfg_num_of_users c,
                                       num_of_bft_allocations = bft_allocations,
                                       num_of_data_allocations = map (\<lambda>k. k + 1) bft_allocations,
                                       msdu_length_bytes = cfg_msdu_length_bytes c,
                                       num_of_a_msdu_subframes = a_msdu_subframes,
                                       mpdu_length_bytes = mpdu_length,
                                       num_of_a_mpdu_subframes = a_mpdu_subframes,
                                       psdu_length_bytes = psdu_length,
                                       enable_cts = cfg_self_cts c,
                                       enable_ack = cfg_ack c \<rparr>)))))))))"

text \<open>A complete run of the fast study: set-up, run, metrics.\<close>

definition simulate_fast ::
  "nat \<Rightarrow> mcs_table \<Rightarrow> (rat \<Rightarrow> rat \<Rightarrow> error + rat) \<Rightarrow> int \<Rightarrow> int \<Rightarrow> single_config
     \<Rightarrow> notice list \<times> (error + rat \<times> metrics)" where
  "simulate_fast drawn mcs_table get_optimal_mcs bi observed_bi c =
     (let (notices, ios) = InOutStudy_setup drawn mcs_table get_optimal_mcs bi observed_bi c
      in (notices,
          and_then ios (\<lambda>s.
          and_then (FastInOutStudy_run s) (\<lambda>arrival.
          and_then (FastInOutStudy_calc_performance_metrics s arrival) (\<lambda>m.
            Inr (mcs s, m))))))"

section \<open>Time slots of \<^verbatim>\<open>core/timeslot.py\<close>\<close>

text \<open>
  A \<^verbatim>\<open>Timeslot\<close> has a name, a start and a duration; a \<^verbatim>\<open>ResponsibleTimeslot\<close>
  has in addition its free-time tracker and its children. The identifiers handed out
  by \<^verbatim>\<open>TimeslotIdGenerator\<close> and the parent back-reference are never read by the
  studies and are left out.
\<close>

datatype timeslot =
    Timeslot (ts_name: string) (ts_timestamp: rat) (ts_duration: rat)
  | ResponsibleTimeslot (ts_name: string) (ts_timestamp: rat) (ts_duration: rat)
      (ts_at: "rat available_time") (ts_children: "timeslot list")

definition new_ResponsibleTimeslot :: "string \<Rightarrow> rat \<Rightarrow> rat \<Rightarrow> timeslot" where
  "new_ResponsibleTimeslot nm t d = ResponsibleTimeslot nm t d (AvailableTime t (t + d)) []"

fun add_child :: "timeslot \<Rightarrow> timeslot \<Rightarrow> error + timeslot" where
  "add_child (ResponsibleTimeslot nm t d av cs) child =
     and_then (allocate_available_time av (ts_timestamp child)
                 (ts_timestamp child + ts_duration child))
       (\<lambda>av'. Inr (ResponsibleTimeslot nm t d av' (cs @ [child])))"
| "add_child (Timeslot nm t d) child = Inl AttributeError"

fun add_children :: "timeslot \<Rightarrow> timeslot list \<Rightarrow> error + timeslot" where
  "add_children parent [] = Inr parent"
| "add_children parent (child # rest) =
     and_then (add_child parent child) (\<lambda>parent'. add_children parent' rest)"

section \<open>The descriptive study\<close>

text \<open>The time slots of the \<open>i\<close>-th transmission of a data service period.\<close>

definition tx_slots :: "study \<Rightarrow> rat \<Rightarrow> int \<Rightarrow> nat \<Rightarrow> error + timeslot list" where
  "tx_slots s sp_timestamp overhead i =
     (let timestamp = sp_timestamp + of_nat i * of_int overhead
      in and_then
           (if enable_cts s
            then and_then (get_cts_duration (dg s)) (\<lambda>cts.
                   Inr ([Timeslot ''self-CTS'' timestamp (of_int cts)],
                        timestamp + of_int (cts + SIFS_NS)))
            else Inr ([], timestamp))
           (\<lambda>(cts_slot, timestamp).
              and_then (get_data_ppdu_duration (dg s)) (\<lambda>data.
                let tx_block = Timeslot ''TX'' timestamp (of_int data);
                    timestamp = timestamp + of_int (data + SIFS_NS)
                in if enable_ack s
                   then and_then (get_ack_duration (dg s)) (\<lambda>ack.
                          Inr (cts_slot @ [tx_block, Timeslot ''ACK'' timestamp (of_int ack)]))
                   else Inr (cts_slot @ [tx_block]))))"

text \<open>
  One child of a beacon interval in the last loop of \<^verbatim>\<open>run\<close>: a data service
  period is filled with transmissions and its number of transmissions is counted,
  every other child is passed over.
\<close>

definition populate :: "study \<Rightarrow> timeslot \<Rightarrow> error + timeslot \<times> int" where
  "populate s bi_child =
     (case bi_child of
        Timeslot nm t d \<Rightarrow> Inr (bi_child, 0)
      | ResponsibleTimeslot nm t d av cs \<Rightarrow>
          if nm \<noteq> ''SP-DATA'' then Inr (bi_child, 0)
          else
            and_then (get_data_with_overhead_duration (dg s)) (\<lambda>overhead.
              if overhead = 0 then Inl ZeroDivisionError
              else
                let num_of_tx_slots = py_int (d / of_int overhead)
                in and_then (collect (map (tx_slots s t overhead) [0 ..< nat num_of_tx_slots]))
                     (\<lambda>slots. and_then (add_children bi_child (concat slots))
                        (\<lambda>filled. Inr (filled, num_of_tx_slots)))))"

text \<open>
  One pass of the loop over the beacon intervals: the interval with its children, and
  its number of transmissions. The interval is first entered in the tracker of the
  channel.
\<close>

definition descriptive_bi ::
  "study \<Rightarrow> nat \<Rightarrow> int \<Rightarrow> int \<Rightarrow> error + timeslot \<times> int" where
  "descriptive_bi s i noa noa_bft =
     (let bi = new_ResponsibleTimeslot ''BI'' (of_int (int i * bi_duration s))
                 (of_int (bi_duration s));
          bti = Timeslot ''BTI'' (of_int (int i * bi_duration s)) (of_int (bti_value noa))
      in and_then (add_child bi bti) (\<lambda>bi.
         and_then
           (if noa_bft \<noteq> 0 then
              (case ts_at bi of
                 [] \<Rightarrow> Inl IndexError
               | (t_start, t_end) # _ \<Rightarrow>
                   if noa_bft + 1 = 0 then Inl ZeroDivisionError
                   else
                     let t_step = (t_end - t_start) / of_int (noa_bft + 1)
                     in and_then
                          (collect (map (\<lambda>idx_bft.
                               and_then (get_bft_duration (dg s)) (\<lambda>bft.
                                 Inr (Timeslot ''SP-BFT''
                                        (of_nat (idx_bft + 1) * t_step - bft / 2 + t_start) bft)))
                             [0 ..< nat noa_bft]))
                          (add_children bi))
            else Inr bi)
           (\<lambda>bi.
              and_then
                (collect (map (\<lambda>slot.
                     and_then (get_guard_time_duration (dg s)) (\<lambda>gt.
                       Inr (new_ResponsibleTimeslot ''SP-DATA'' (fst slot + of_int gt)
                              (snd slot - fst slot - 2 * of_int gt))))
                   (ts_at bi)))
                (\<lambda>sp_data. and_then (add_children bi sp_data) (\<lambda>bi.
                   and_then (collect (map (populate s) (ts_children bi))) (\<lambda>filled.
                     Inr (ResponsibleTimeslot (ts_name bi) (ts_timestamp bi) (ts_duration bi)
                            (ts_at bi) (map fst filled),
                          sum_list (map snd filled))))))))"

text \<open>
  The loop over the beacon intervals: the channel so far and the number of
  transmissions so far.
\<close>

fun descriptive_loop ::
  "study \<Rightarrow> nat \<Rightarrow> (int \<times> int) list \<Rightarrow> timeslot \<times> int \<Rightarrow> error + timeslot \<times> int" where
  "descriptive_loop s i [] acc = Inr acc"
| "descriptive_loop s i ((noa, noa_bft) # rest) (ch, total_data_blocks) =
     and_then
       (add_child ch (new_ResponsibleTimeslot ''BI'' (of_int (int i * bi_duration s))
                        (of_int (bi_duration s))))
       (\<lambda>ch'. and_then (descriptive_bi s i noa noa_bft) (\<lambda>(bi, blocks).
          descriptive_loop s (Suc i) rest
            (ResponsibleTimeslot (ts_name ch') (ts_timestamp ch') (ts_duration ch') (ts_at ch')
               (butlast (ts_children ch') @ [bi]),
             total_data_blocks + blocks)))"

text \<open>
  \<^verbatim>\<open>DescriptiveInOutStudy.run\<close>: the guard time is generated first; the result is
  the channel with all its time slots and \<^verbatim>\<open>total_data_blocks\<close>.
\<close>

definition DescriptiveInOutStudy_run :: "study \<Rightarrow> error + timeslot \<times> int" where
  "DescriptiveInOutStudy_run s =
     (let s = s\<lparr>dg := generate_guard_time_duration (bi_duration s) (dg s)\<rparr>;
          ch = new_ResponsibleTimeslot ''CH'' 0
                 (of_int (num_of_observed_bi s * bi_duration s))
      in descriptive_loop s 0
           (zip (num_of_data_allocations s) (num_of_bft_allocations s)) (ch, 0))"


section \<open>Example inputs\<close>

text \<open>
  A configuration of the kind that \<^verbatim>\<open>main.py\<close> sweeps over: 1500-byte data units,
  no aggregation, no self-CTS, acknowledgements, one user, one antenna with 8 sectors,
  beam refinement only, no mobility. The scheme table holds scheme 1 (BPSK, rate 1/2).
\<close>

definition example_config :: single_config where
  "example_config =
     \<lparr> cfg_Eb_N0 = 5, cfg_allowed_err = 1 / 100000, cfg_num_of_users = 1,
       cfg_num_of_ue_antennas = 1, cfg_num_of_antenna_sectors = 8, cfg_enalbe_sls = False,
       cfg_enable_r_txss = False, cfg_mobility = Static, cfg_msdu_length_bytes = 1500,
       cfg_msdu_max_agg = False, cfg_mpdu_max_agg = False, cfg_self_cts = False,
       cfg_ack = True \<rparr>"

definition example_mcs_table :: mcs_table where
  "example_mcs_table = [1 \<mapsto> (1, 1 / 2)]"

text \<open>The durations that the setters generate for this configuration.\<close>

definition example_dg :: DurationGenerator where
  "example_dg =
     \<lparr>guard_time_duration = Absent, bti_duration = PyNone,
       bft_duration = Holds 55700, data_ppdu_duration = Holds 18509,
       cts_duration = Holds 14059, ack_duration = Holds 13186,
       data_with_overhead_duration = Holds 47695\<rparr>"

text \<open>
  The study that the setters build for this configuration, for a beacon-interval
  duration, a number of observed intervals and an array of beamforming allocations.
\<close>

definition example_study :: "int \<Rightarrow> int \<Rightarrow> int list \<Rightarrow> study" where
  "example_study bi observed_bi bft_allocations =
     \<lparr>bi_duration = bi, num_of_observed_bi = observed_bi, dg = example_dg,
       mcs = 1, num_of_users = 1, num_of_bft_allocations = bft_allocations,
       num_of_data_allocations = map (\<lambda>k. k + 1) bft_allocations, msdu_length_bytes = 1500,
       num_of_a_msdu_subframes = 1, mpdu_length_bytes = 1516,
       num_of_a_mpdu_subframes = 1, psdu_length_bytes = 1516,
       enable_cts = False, enable_ack = True\<rparr>"

subsection \<open>Vocabulary of the claims about the tracker\<close>

text \<open>A time stamp lies in a free range, bounds included, as the source tests it.\<close>

definition lies_in :: "('a::linorder) \<times> 'a \<Rightarrow> 'a \<Rightarrow> bool" where
  "lies_in slot t = (fst slot \<le> t \<and> t \<le> snd slot)"

text \<open>A free range fully contains the request: both end points lie in it.\<close>

definition contains :: "('a::linorder) \<times> 'a \<Rightarrow> 'a \<Rightarrow> 'a \<Rightarrow> bool" where
  "contains slot t_start t_end = (lies_in slot t_start \<and> lies_in slot t_end)"

text \<open>
  A free range partially overlaps the request in the sense of the source's comment
  \<^verbatim>\<open>Only partially overlaps with available time slot\<close>: exactly one end point of
  the request lies in it.
\<close>

definition partially_overlaps :: "('a::linorder) \<times> 'a \<Rightarrow> 'a \<Rightarrow> 'a \<Rightarrow> bool" where
  "partially_overlaps slot t_start t_end = (lies_in slot t_start \<noteq> lies_in slot t_end)"

text \<open>The range that replaces the containing one: removed, shrunk or split.\<close>

definition carve :: "('a::linorder) \<times> 'a \<Rightarrow> 'a \<Rightarrow> 'a \<Rightarrow> 'a available_time" where
  "carve slot t_start t_end =
     (if t_start = fst slot \<and> t_end = snd slot then []
      else if t_start = fst slot then [(t_end, snd slot)]
      else if t_end = snd slot then [(fst slot, t_start)]
      else [(fst slot, t_start), (t_end, snd slot)])"

text \<open>Sorted by start, and no range begins before an earlier one has ended.\<close>

definition sorted_disjoint :: "('a::linorder) available_time \<Rightarrow> bool" where
  "sorted_disjoint av =
     (sorted (map fst av) \<and> sorted_wrt (\<lambda>slot slot'. snd slot \<le> fst slot') av)"

text \<open>Every range ends strictly before each later one begins: a positive gap.\<close>

definition separated :: "('a::linorder) available_time \<Rightarrow> bool" where
  "separated av = sorted_wrt (\<lambda>slot slot'. snd slot < fst slot') av"

definition free_total :: "('a::ab_group_add) available_time \<Rightarrow> 'a" where
  "free_total av = sum_list (map (\<lambda>slot. snd slot - fst slot) av)"


section \<open>Properties of the free-time tracker\<close>

lemma scan_Cons:
  "scan_available_time i (slot # ats) a b =
     (if lies_in slot a \<and> lies_in slot b then Inr i
      else if lies_in slot a \<or> lies_in slot b then Inl Overlapping_timeslot
      else scan_available_time (Suc i) ats a b)"
  by (simp add: lies_in_def Let_def)

declare scan_available_time.simps(2) [simp del]

lemma scan_Inr_bounds:
  "scan_available_time i av a b = Inr k \<Longrightarrow>
     i \<le> k \<and> k - i < length av \<and> contains (av ! (k - i)) a b"
proof (induction av arbitrary: i)
  case Nil
  then show ?case by simp
next
  case (Cons slot ats)
  show ?case
  proof (cases "lies_in slot a \<and> lies_in slot b")
    case True
    with Cons.prems show ?thesis
      by (simp add: scan_Cons contains_def)
  next
    case False
    with Cons.prems have rest: "scan_available_time (Suc i) ats a b = Inr k"
      by (simp add: scan_Cons split: if_splits)
    from Cons.IH [OF rest] have "Suc i \<le> k" and "k - Suc i < length ats"
      and "contains (ats ! (k - Suc i)) a b" by simp_all
    moreover from \<open>Suc i \<le> k\<close> have "k - i = Suc (k - Suc i)" by simp
    ultimately show ?thesis by simp
  qed
qed

lemma scan_skip:
  "\<forall>slot \<in> set pre. \<not> lies_in slot a \<and> \<not> lies_in slot b \<Longrightarrow>
     scan_available_time i (pre @ rest) a b = scan_available_time (i + length pre) rest a b"
  by (induction pre arbitrary: i) (simp_all add: scan_Cons)

lemma scan_none:
  "\<forall>slot \<in> set av. \<not> lies_in slot a \<and> \<not> lies_in slot b \<Longrightarrow>
     scan_available_time i av a b = Inl Insufficient_time"
  using scan_skip [of av a b i "[]"] by simp

lemma scan_overlap:
  "\<forall>slot \<in> set av. \<not> contains slot a b \<Longrightarrow> \<exists>slot \<in> set av. lies_in slot a \<or> lies_in slot b \<Longrightarrow>
     scan_available_time i av a b = Inl Overlapping_timeslot"
proof (induction av arbitrary: i)
  case Nil
  then show ?case by simp
next
  case (Cons slot ats)
  from Cons.prems(1) have no: "\<not> (lies_in slot a \<and> lies_in slot b)"
    by (simp add: contains_def)
  show ?case
  proof (cases "lies_in slot a \<or> lies_in slot b")
    case True
    with no show ?thesis by (simp add: scan_Cons)
  next
    case False
    with Cons.prems have "\<forall>slot \<in> set ats. \<not> contains slot a b"
      and "\<exists>slot \<in> set ats. lies_in slot a \<or> lies_in slot b" by auto
    from Cons.IH [OF this] False show ?thesis by (simp add: scan_Cons)
  qed
qed

lemma separated_before:
  assumes "separated (pre @ slot # post)" and "contains slot a b"
  shows "\<forall>q \<in> set pre. \<not> lies_in q a \<and> \<not> lies_in q b"
  using assms
  by (fastforce simp: separated_def sorted_wrt_append contains_def lies_in_def)

lemma separated_unique:
  assumes "separated av" and "slot \<in> set av" and "slot' \<in> set av"
    and "lies_in slot t" and "lies_in slot' t"
  shows "slot = slot'"
proof -
  from \<open>slot \<in> set av\<close> obtain pre post where av: "av = pre @ slot # post"
    by (auto dest: split_list)
  with assms(1) have "\<forall>q \<in> set pre. snd q < fst slot" and "\<forall>q \<in> set post. snd slot < fst q"
    by (auto simp: separated_def sorted_wrt_append)
  moreover from \<open>slot' \<in> set av\<close> av have "slot' = slot \<or> slot' \<in> set pre \<or> slot' \<in> set post"
    by auto
  ultimately show ?thesis
    using \<open>lies_in slot t\<close> \<open>lies_in slot' t\<close> by (fastforce simp: lies_in_def)
qed

lemma allocate_carve:
  assumes "get_available_time_idx av a b = Inr k"
  shows "k < length av \<and> contains (av ! k) a b \<and>
         allocate_available_time av a b = Inr (take k av @ carve (av ! k) a b @ drop (Suc k) av)"
proof -
  from assms have k: "k < length av" and c: "contains (av ! k) a b"
    using scan_Inr_bounds [of 0 av a b k] by (simp_all add: get_available_time_idx_def)
  from k have "\<And>x. av[k := x] = take k av @ [x] @ drop (Suc k) av"
    by (simp add: upd_conv_take_nth_drop)
  with assms k c show ?thesis
    by (simp add: allocate_available_time_def carve_def)
qed

lemma allocate_at_split:
  assumes "separated (pre @ slot # post)" and "contains slot a b"
  shows "allocate_available_time (pre @ slot # post) a b = Inr (pre @ carve slot a b @ post)"
proof -
  have "get_available_time_idx (pre @ slot # post) a b = Inr (length pre)"
    using scan_skip [OF separated_before [OF assms], of 0 "slot # post"] assms(2)
    by (simp add: get_available_time_idx_def contains_def scan_Cons)
  from allocate_carve [OF this] show ?thesis by simp
qed

lemma sorted_disjoint_carve:
  assumes "sorted_disjoint (pre @ slot # post)" and "contains slot a b" and "a \<le> b"
  shows "sorted_disjoint (pre @ carve slot a b @ post)"
  using assms
  by (cases slot)
     (fastforce simp: sorted_disjoint_def carve_def contains_def lies_in_def
        sorted_append sorted_wrt_append)

lemma free_total_carve:
  "free_total (pre @ carve slot a b @ post) = free_total (pre @ slot # post) - (b - a)"
  by (simp add: free_total_def carve_def)

text \<open>
  C1, as amended. In a tracker whose free ranges are separated by positive gaps:
  an allocation succeeds exactly when some free range fully contains the request; it
  fails with \<^verbatim>\<open>Insufficient time\<close> when no free range contains either end point,
  and with the overlap error when some free range contains exactly one end point. On
  success the containing range is replaced in place: an exact match removes it, a match
  that touches one edge shrinks it, an interior match splits it in two.
\<close>

theorem allocate_separated:
  assumes "separated av"
  shows "((\<exists>av'. allocate_available_time av a b = Inr av') \<longleftrightarrow> (\<exists>slot \<in> set av. contains slot a b))
       \<and> ((\<forall>slot \<in> set av. \<not> lies_in slot a \<and> \<not> lies_in slot b) \<longrightarrow>
            allocate_available_time av a b = Inl Insufficient_time)
       \<and> ((\<exists>slot \<in> set av. partially_overlaps slot a b) \<longrightarrow>
            allocate_available_time av a b = Inl Overlapping_timeslot)
       \<and> (\<forall>pre s e post. av = pre @ (s, e) # post \<and> contains (s, e) a b \<longrightarrow>
            allocate_available_time av a b =
              Inr (pre @ (if a = s \<and> b = e then []
                          else if a = s then [(b, e)]
                          else if b = e then [(s, a)]
                          else [(s, a), (b, e)]) @ post))"
proof (intro conjI)
  show "(\<exists>av'. allocate_available_time av a b = Inr av') \<longleftrightarrow> (\<exists>slot \<in> set av. contains slot a b)"
  proof
    assume "\<exists>av'. allocate_available_time av a b = Inr av'"
    then obtain k where "get_available_time_idx av a b = Inr k"
      by (auto simp: allocate_available_time_def split: sum.splits)
    from allocate_carve [OF this] show "\<exists>slot \<in> set av. contains slot a b"
      using nth_mem by blast
  next
    assume "\<exists>slot \<in> set av. contains slot a b"
    then obtain slot pre post where "av = pre @ slot # post" and "contains slot a b"
      by (auto dest: split_list)
    with assms allocate_at_split show "\<exists>av'. allocate_available_time av a b = Inr av'"
      by blast
  qed
next
  show "(\<forall>slot \<in> set av. \<not> lies_in slot a \<and> \<not> lies_in slot b) \<longrightarrow>
          allocate_available_time av a b = Inl Insufficient_time"
    by (simp add: allocate_available_time_def get_available_time_idx_def scan_none)
next
  show "(\<exists>slot \<in> set av. partially_overlaps slot a b) \<longrightarrow>
          allocate_available_time av a b = Inl Overlapping_timeslot"
  proof
    assume "\<exists>slot \<in> set av. partially_overlaps slot a b"
    then obtain slot where slot: "slot \<in> set av" "lies_in slot a \<noteq> lies_in slot b"
      by (auto simp: partially_overlaps_def)
    have "\<forall>q \<in> set av. \<not> contains q a b"
    proof
      fix q assume q: "q \<in> set av"
      show "\<not> contains q a b"
      proof
        assume "contains q a b"
        then have "lies_in q a" "lies_in q b" by (simp_all add: contains_def)
        with slot q separated_unique [OF assms slot(1) q] show False by blast
      qed
    qed
    moreover from slot have "\<exists>slot \<in> set av. lies_in slot a \<or> lies_in slot b" by blast
    ultimately have "scan_available_time 0 av a b = Inl Overlapping_timeslot"
      by (rule scan_overlap)
    then show "allocate_available_time av a b = Inl Overlapping_timeslot"
      by (simp add: allocate_available_time_def get_available_time_idx_def)
  qed
next
  show "\<forall>pre s e post. av = pre @ (s, e) # post \<and> contains (s, e) a b \<longrightarrow>
          allocate_available_time av a b =
            Inr (pre @ (if a = s \<and> b = e then []
                        else if a = s then [(b, e)]
                        else if b = e then [(s, a)]
                        else [(s, a), (b, e)]) @ post)"
  proof (intro allI impI)
    fix pre s e post
    assume "av = pre @ (s, e) # post \<and> contains (s, e) a b"
    with assms allocate_at_split [of pre "(s, e)" post a b] show
      "allocate_available_time av a b =
         Inr (pre @ (if a = s \<and> b = e then []
                     else if a = s then [(b, e)]
                     else if b = e then [(s, a)]
                     else [(s, a), (b, e)]) @ post)"
      by (simp add: carve_def)
  qed
qed

theorem allocate_separated_witness:
  "separated [(0::int, 10), (20, 30)]
   \<and> allocate_available_time [(0::int, 10), (20, 30)] 22 25 = Inr [(0, 10), (20, 22), (25, 30)]
   \<and> allocate_available_time [(0::int, 10), (20, 30)] 12 15 = Inl Insufficient_time
   \<and> allocate_available_time [(0::int, 10), (20, 30)] 8 15 = Inl Overlapping_timeslot"
proof -
  have sep: "separated [(0::int, 10), (20, 30)]"
    by (simp add: separated_def)
  have "contains (20::int, 30) 22 25" "partially_overlaps (0::int, 10) 8 15"
    "\<forall>slot \<in> set [(0::int, 10), (20, 30)]. \<not> lies_in slot 12 \<and> \<not> lies_in slot 15"
    by (simp_all add: contains_def partially_overlaps_def lies_in_def)
  moreover have "allocate_available_time [(0::int, 10), (20, 30)] 22 25
      = Inr [(0, 10), (20, 22), (25, 30)]"
    using allocate_separated [OF sep, of 22 25] \<open>contains (20::int, 30) 22 25\<close>
    by (auto dest: spec [of _ "[(0, 10)]"])
  ultimately show ?thesis
    using sep allocate_separated [OF sep, of 12 15] allocate_separated [OF sep, of 8 15]
    by simp
qed

text \<open>
  C1 as stated fails where two free ranges touch. Allocating the empty range [5,5]
  inside (0,10) leaves (0,5) and (5,10); the range (5,10) then fully contains [5,7],
  but the scan meets (0,5) first, finds only the start point in it and raises the
  overlap error.
\<close>

theorem allocate_touching_counterexample:
  "allocate_available_time (AvailableTime (0::int) 10) 5 5 = Inr [(0, 5), (5, 10)]
   \<and> (5::int, 10::int) \<in> set [(0, 5), (5, 10)] \<and> contains (5::int, 10::int) 5 7
   \<and> allocate_available_time [(0::int, 5), (5, 10)] 5 7 = Inl Overlapping_timeslot"
  by code_simp

text \<open>
  A freshly constructed tracker is sorted and non-overlapping; a successful allocation
  of a range with \<open>t_start \<le> t_end\<close> keeps it so and removes exactly
  \<open>t_end - t_start\<close> of free time.
\<close>

lemma allocate_invariant:
  "sorted_disjoint (AvailableTime (t0::int) t1)
   \<and> (sorted_disjoint av \<and> a \<le> b \<and> allocate_available_time av a b = Inr av' \<longrightarrow>
        sorted_disjoint av' \<and> free_total av' = free_total av - (b - (a::int))
        \<and> free_total av' \<le> free_total av)"
proof (intro conjI impI)
  show "sorted_disjoint (AvailableTime t0 t1)"
    by (simp add: sorted_disjoint_def AvailableTime_def)
next
  assume h: "sorted_disjoint av \<and> a \<le> b \<and> allocate_available_time av a b = Inr av'"
  then obtain k where "get_available_time_idx av a b = Inr k"
    by (auto simp: allocate_available_time_def split: sum.splits)
  from allocate_carve [OF this] h
  have k: "k < length av" and c: "contains (av ! k) a b"
    and av': "av' = take k av @ carve (av ! k) a b @ drop (Suc k) av" by simp_all
  from k have av: "av = take k av @ av ! k # drop (Suc k) av"
    by (rule id_take_nth_drop)
  from h av have "sorted_disjoint (take k av @ av ! k # drop (Suc k) av)" by simp
  from sorted_disjoint_carve [OF this c] h av'
  show "sorted_disjoint av'" by simp
  from free_total_carve [of "take k av" "av ! k" a b "drop (Suc k) av"] av av'
  show eq: "free_total av' = free_total av - (b - a)" by simp
  with h show "free_total av' \<le> free_total av" by simp
qed

lemma allocate_invariant_example:
  "sorted_disjoint (AvailableTime (0::int) 10)
   \<and> allocate_available_time (AvailableTime (0::int) 10) 3 7 = Inr [(0, 3), (7, 10)]
   \<and> sorted_disjoint [(0::int, 3), (7, 10)]
   \<and> free_total [(0::int, 3), (7, 10)] = free_total (AvailableTime 0 10) - (7 - 3)"
proof -
  have run: "allocate_available_time (AvailableTime (0::int) 10) 3 7 = Inr [(0, 3), (7, 10)]"
    by code_simp
  with allocate_invariant [of 0 10 "AvailableTime 0 10" 3 7 "[(0, 3), (7, 10)]"]
  show ?thesis by simp
qed

text \<open>
  C10. When no free range contains the request but an end point of the request
  coincides with the start or the end of some free range (a range with
  \<open>start \<le> end\<close>), the allocation fails with the overlap error, not with
  \<^verbatim>\<open>Insufficient time\<close>.
\<close>

theorem allocate_boundary_overlap:
  assumes "\<forall>slot \<in> set av. \<not> contains slot a b"
    and "(s, e) \<in> set av" and "s \<le> e"
    and "a = s \<or> a = e \<or> b = s \<or> b = e"
  shows "allocate_available_time av a b = Inl Overlapping_timeslot"
proof -
  from assms(3,4) have "lies_in (s, e) a \<or> lies_in (s, e) b"
    by (auto simp: lies_in_def)
  with assms(2) have "\<exists>slot \<in> set av. lies_in slot a \<or> lies_in slot b" by blast
  with assms(1) have "scan_available_time 0 av a b = Inl Overlapping_timeslot"
    by (rule scan_overlap)
  then show ?thesis
    by (simp add: allocate_available_time_def get_available_time_idx_def)
qed

theorem allocate_boundary_overlap_witness:
  "\<not> contains (0::int, 5::int) 6 8 \<and> \<not> contains (8::int, 10::int) 6 8
   \<and> (8::int, 10::int) \<in> set [(0, 5), (8, 10)] \<and> (8::int) \<le> 10
   \<and> allocate_available_time [(0::int, 5), (8, 10)] 6 8 = Inl Overlapping_timeslot"
proof -
  have h: "\<forall>slot \<in> set [(0::int, 5), (8, 10)]. \<not> contains slot 6 8"
    by (simp add: contains_def lies_in_def)
  from allocate_boundary_overlap [OF h, of 8 10] h show ?thesis by simp
qed

section \<open>Properties of the frame-size formulas\<close>

text \<open>
  C6. \<^verbatim>\<open>calc_a_msdu_length\<close> returns the subframe length unchanged when there is at
  most one subframe. For more subframes it returns
  \<open>n * (2 + L) + (n - 1) * (L mod 4)\<close> when that value is at most the maximum A-MSDU
  length (7935), and raises, returning nothing, exactly when the value exceeds it.
\<close>

theorem calc_a_msdu_length_cases:
  "MAX_A_MSDU_LENGTH = 7935
   \<and> (n \<le> 1 \<longrightarrow> calc_a_msdu_length n L = Inr L)
   \<and> (n > 1 \<and> n * (2 + L) + (n - 1) * (L mod 4) \<le> MAX_A_MSDU_LENGTH \<longrightarrow>
        calc_a_msdu_length n L = Inr (n * (2 + L) + (n - 1) * (L mod 4)))
   \<and> (n > 1 \<longrightarrow>
        ((\<exists>e. calc_a_msdu_length n L = Inl e) \<longleftrightarrow>
         n * (2 + L) + (n - 1) * (L mod 4) > MAX_A_MSDU_LENGTH))
   \<and> (n > 1 \<and> n * (2 + L) + (n - 1) * (L mod 4) > MAX_A_MSDU_LENGTH \<longrightarrow>
        calc_a_msdu_length n L =
          Inl (A_MSDU_exceeded (n * (2 + L) + (n - 1) * (L mod 4)) MAX_A_MSDU_LENGTH))"
  by (simp add: calc_a_msdu_length_def Let_def MAX_A_MSDU_LENGTH_def)

theorem calc_a_msdu_length_cases_witness:
  "calc_a_msdu_length 1 9000 = Inr 9000
   \<and> calc_a_msdu_length 5 1501 = Inr 7519
   \<and> calc_a_msdu_length 6 1500 = Inl (A_MSDU_exceeded 9012 7935)"
  using calc_a_msdu_length_cases [of 1 9000] calc_a_msdu_length_cases [of 5 1501]
    calc_a_msdu_length_cases [of 6 1500]
  by simp

lemma N_CBPB_lookup:
  "py_index N_CBPB (py_int (1 / 2)) = Inr 448"
  "py_index N_CBPB (py_int (2 / 2)) = Inr 896"
  "py_index N_CBPB (py_int (4 / 2)) = Inr 1792"
  "py_index N_CBPB (py_int (6 / 2)) = Inr 2688"
  by code_simp+

lemma blocks_mono:
  fixes code_rate :: rat and N_cbpb :: int
  assumes "0 < code_rate" and "0 < N_cbpb" and "p1 \<le> p2"
  shows "\<lceil>of_int (p1 * 8) / (672 * code_rate) * 672 / of_int N_cbpb\<rceil>
       \<le> \<lceil>of_int (p2 * 8) / (672 * code_rate) * 672 / of_int N_cbpb\<rceil>"
proof -
  let ?K = "8 / (code_rate * of_int N_cbpb)"
  from assms(1,2) have K: "0 \<le> ?K" by simp
  have shape: "of_int (p * 8) / (672 * code_rate) * 672 / of_int N_cbpb = of_int p * ?K"
    for p :: int
    by simp
  from assms(3) have "(of_int p1 :: rat) \<le> of_int p2" by simp
  then have "of_int p1 * ?K \<le> of_int p2 * ?K"
    using K by (rule mult_right_mono)
  then show ?thesis
    unfolding shape by (rule ceiling_mono)
qed

text \<open>
  C7. For a modulation rate of the table (1, 2, 4 or 6) and a positive code rate,
  \<^verbatim>\<open>calc_data_frame_ppdu_size\<close> returns a size for every payload, and a larger
  payload never gives a smaller size.
\<close>

theorem calc_data_frame_ppdu_size_mono:
  assumes "modulation_rate \<in> {1, 2, 4, 6}" and "0 < code_rate" and "p1 \<le> p2"
  shows "\<exists>s1 s2. calc_data_frame_ppdu_size p1 modulation_rate code_rate = Inr s1
               \<and> calc_data_frame_ppdu_size p2 modulation_rate code_rate = Inr s2
               \<and> s1 \<le> s2"
proof -
  from assms(1) obtain N_cbpb :: int where
    idx: "py_index N_CBPB (py_int (modulation_rate / 2)) = Inr N_cbpb" and pos: "0 < N_cbpb"
    using N_CBPB_lookup by auto
  from blocks_mono [OF assms(2) pos assms(3)] idx assms(2) show ?thesis
    by (simp add: calc_data_frame_ppdu_size_def Let_def)
qed

theorem calc_data_frame_ppdu_size_mono_witness:
  "(4::rat) \<in> {1, 2, 4, 6} \<and> (0::rat) < 3 / 4 \<and> (1500::int) \<le> 1700
   \<and> calc_data_frame_ppdu_size 1500 4 (3 / 4) = Inr 9024
   \<and> calc_data_frame_ppdu_size 1700 4 (3 / 4) = Inr 10048"
proof -
  have "calc_data_frame_ppdu_size 1500 4 (3 / 4) = Inr 9024"
    and "calc_data_frame_ppdu_size 1700 4 (3 / 4) = Inr 10048"
    by code_simp+
  with calc_data_frame_ppdu_size_mono [of 4 "3 / 4" 1500 1700] show ?thesis by simp
qed

section \<open>Properties of the beamforming allocations\<close>

lemma map2_zeros: "map2 (+) (map (\<lambda>_. 0::int) a) a = a"
  by (induction a) simp_all

lemma np_roll_0: "np_roll a 0 = a"
  by (simp add: np_roll_def)

lemma sum_list_update_int:
  fixes xs :: "int list"
  shows "k < length xs \<Longrightarrow> sum_list (xs[k := x]) = sum_list xs + x - xs ! k"
  by (induction xs arbitrary: k) (auto split: nat.splits)

text \<open>
  C8. When the target period exceeds the observed time, the scheduler with one user
  prints the fallback notice and returns an array over the observed beacon intervals
  that is zero except for a one at the drawn index: its entries sum to 1, not to 0.
\<close>

theorem fallback_single_allocation:
  assumes "period > n_bi * bi_ns" and "int drawn < n_bi"
  shows "get_number_of_bft_allocations drawn n_bi bi_ns period 1
           = ([No_BFT_allocations period (n_bi * bi_ns)],
              Inr ((replicate (nat n_bi) 0)[drawn := 1]))
       \<and> length ((replicate (nat n_bi) (0::int))[drawn := 1]) = nat n_bi
       \<and> sum_list ((replicate (nat n_bi) (0::int))[drawn := 1]) = 1"
proof -
  from assms(2) have d: "drawn < nat n_bi" by simp
  have "sum_list ((replicate (nat n_bi) (0::int))[drawn := 1]) = 1"
    using d by (simp add: sum_list_update_int sum_list_replicate)
  with assms show ?thesis
    by (simp add: get_number_of_bft_allocations_def Let_def np_roll_0 map2_zeros)
qed

theorem fallback_single_allocation_witness:
  "(1000000001::int) > 10 * 100000000 \<and> int 3 < 10
   \<and> get_number_of_bft_allocations 3 10 100000000 1000000001 1
       = ([No_BFT_allocations 1000000001 1000000000], Inr [0, 0, 0, 1, 0, 0, 0, 0, 0, 0])
   \<and> sum_list [0, 0, 0, 1, 0, 0, 0, 0, 0, 0 :: int] = 1"
proof -
  have "(replicate (nat 10) (0::int))[3 := 1] = [0, 0, 0, 1, 0, 0, 0, 0, 0, 0]"
    by code_simp
  with fallback_single_allocation [of 10 100000000 1000000001 3] show ?thesis
    by simp
qed

section \<open>Properties of the duration generator\<close>

lemma generate_other_kind:
  assumes "generate t c gen = Inr gen'" and "kind_of c \<noteq> k"
  shows "get_duration k gen' = get_duration k gen"
  using assms
  by (cases c; cases k)
     (auto simp: generate_guard_time_duration_def generate_bti_duration_def
        generate_bft_duration_def generate_data_ppdu_duration_def generate_cts_duration_def
        generate_ack_duration_def generate_data_with_overhead_duration_def
        get_guard_time_duration_def get_bti_duration_def get_bft_duration_def
        get_data_ppdu_duration_def get_cts_duration_def get_ack_duration_def
        get_data_with_overhead_duration_def
        split: option.splits sum.splits if_splits prod.splits)

lemma run_calls_other_kinds:
  "\<forall>c \<in> set cs. kind_of c \<noteq> k \<Longrightarrow> get_duration k (run_calls t cs gen) = get_duration k gen"
proof (induction cs arbitrary: gen)
  case Nil
  then show ?case by simp
next
  case (Cons c cs)
  then show ?case
    by (cases "generate t c gen") (simp_all add: generate_other_kind)
qed

lemma get_duration_init:
  "get_duration k DurationGenerator_init =
     Inl (if k = Guard_time \<or> k = Data_with_overhead then AttributeError else Unset_duration)"
  by (cases k)
     (simp_all add: DurationGenerator_init_def check_existence_and_return_duration_def
        get_guard_time_duration_def get_bti_duration_def get_bft_duration_def
        get_data_ppdu_duration_def get_cts_duration_def get_ack_duration_def
        get_data_with_overhead_duration_def)

lemma generate_same_kind:
  assumes "generate t c gen = Inr gen'"
  shows "\<exists>v. get_duration (kind_of c) gen' = Inr v"
  using assms
  by (cases c)
     (auto simp: generate_guard_time_duration_def generate_bti_duration_def
        generate_bft_duration_def generate_data_ppdu_duration_def generate_cts_duration_def
        generate_ack_duration_def generate_data_with_overhead_duration_def
        get_guard_time_duration_def get_bti_duration_def get_bft_duration_def
        get_data_ppdu_duration_def get_cts_duration_def get_ack_duration_def
        get_data_with_overhead_duration_def check_existence_and_return_duration_def
        split: option.splits sum.splits if_splits prod.splits)

lemma generate_keeps:
  assumes "generate t c gen = Inr gen'" and "get_duration k gen = Inr v"
  shows "\<exists>v'. get_duration k gen' = Inr v'"
proof (cases "kind_of c = k")
  case True
  with generate_same_kind [OF assms(1)] show ?thesis by simp
next
  case False
  with generate_other_kind [OF assms(1)] assms(2) show ?thesis by simp
qed

lemma run_calls_keeps:
  "\<exists>v. get_duration k gen = Inr v \<Longrightarrow> \<exists>v. get_duration k (run_calls t cs gen) = Inr v"
proof (induction cs arbitrary: gen)
  case Nil
  then show ?case by simp
next
  case (Cons c cs)
  show ?case
  proof (cases "generate t c gen")
    case (Inl e)
    with Cons show ?thesis by simp
  next
    case (Inr gen')
    with Cons.prems generate_keeps have "\<exists>v. get_duration k gen' = Inr v" by blast
    from Cons.IH [OF this] Inr show ?thesis by simp
  qed
qed

text \<open>
  C9. For each of the seven kinds of duration: in a generator on which no call for that
  kind has run, the getter raises (\<^verbatim>\<open>AttributeError\<close> for the guard time and the
  data-with-overhead duration, which have no class default, the
  \<^verbatim>\<open>RuntimeError\<close> of \<^verbatim>\<open>check_existence_and_return_duration\<close> for the other
  five); after a generating call that returned, the getter returns a value, which later
  calls never turn back into an error; and the value is the one that the generator
  computed.
\<close>

theorem getter_raises_before_and_returns_after:
  "((\<forall>c \<in> set cs. kind_of c \<noteq> k) \<longrightarrow>
      get_duration k (run_calls t cs DurationGenerator_init) =
        Inl (if k = Guard_time \<or> k = Data_with_overhead then AttributeError
             else Unset_duration))
   \<and> (generate t c gen = Inr gen' \<longrightarrow> (\<exists>v. get_duration (kind_of c) gen' = Inr v))
   \<and> ((\<exists>v. get_duration k gen = Inr v) \<longrightarrow> (\<exists>v. get_duration k (run_calls t cs gen) = Inr v))
   \<and> get_guard_time_duration (generate_guard_time_duration bi gen) = Inr (guard_time_value bi)
   \<and> get_bti_duration (generate_bti_duration n gen) = Inr (bti_value n)
   \<and> get_bft_duration (generate_bft_duration ia ias ra ras sls rtxss gen)
       = Inr (bft_value ia ias ra ras sls rtxss)
   \<and> get_cts_duration (generate_cts_duration gen) = Inr cts_value
   \<and> get_ack_duration (generate_ack_duration m gen) = Inr (ack_value m)
   \<and> (t scheme = Some (Rm, Rc) \<and> calc_data_frame_ppdu_size len Rm Rc = Inr ppdu_size \<longrightarrow>
        (\<exists>gen2. generate_data_ppdu_duration t len scheme gen = Inr gen2
               \<and> get_data_ppdu_duration gen2 = Inr (py_round (of_int ppdu_size / SYMBOL_RATE_GHZ))))
   \<and> (get_data_ppdu_duration gen = Inr d_data \<and> get_cts_duration gen = Inr d_cts
        \<and> get_ack_duration gen = Inr d_ack \<longrightarrow>
        (\<exists>gen3. generate_data_with_overhead_duration use_cts use_ack gen = Inr gen3
               \<and> get_data_with_overhead_duration gen3 =
                   Inr (d_data + DIFS_NS + (if use_cts then d_cts + SIFS_NS else 0)
                        + (if use_ack then d_ack + SIFS_NS else 0))))"
proof (intro conjI impI)
  assume "\<forall>c \<in> set cs. kind_of c \<noteq> k"
  then show "get_duration k (run_calls t cs DurationGenerator_init) =
      Inl (if k = Guard_time \<or> k = Data_with_overhead then AttributeError else Unset_duration)"
    by (simp add: run_calls_other_kinds get_duration_init)
next
  assume "generate t c gen = Inr gen'"
  then show "\<exists>v. get_duration (kind_of c) gen' = Inr v" by (rule generate_same_kind)
next
  assume "\<exists>v. get_duration k gen = Inr v"
  then show "\<exists>v. get_duration k (run_calls t cs gen) = Inr v" by (rule run_calls_keeps)
next
  assume "t scheme = Some (Rm, Rc) \<and> calc_data_frame_ppdu_size len Rm Rc = Inr ppdu_size"
  then show "\<exists>gen2. generate_data_ppdu_duration t len scheme gen = Inr gen2
      \<and> get_data_ppdu_duration gen2 = Inr (py_round (of_int ppdu_size / SYMBOL_RATE_GHZ))"
    by (simp add: generate_data_ppdu_duration_def get_data_ppdu_duration_def
        check_existence_and_return_duration_def)
next
  assume "get_data_ppdu_duration gen = Inr d_data \<and> get_cts_duration gen = Inr d_cts
      \<and> get_ack_duration gen = Inr d_ack"
  then show "\<exists>gen3. generate_data_with_overhead_duration use_cts use_ack gen = Inr gen3
      \<and> get_data_with_overhead_duration gen3 =
          Inr (d_data + DIFS_NS + (if use_cts then d_cts + SIFS_NS else 0)
               + (if use_ack then d_ack + SIFS_NS else 0))"
    by (simp add: generate_data_with_overhead_duration_def get_data_with_overhead_duration_def
        check_existence_and_return_duration_def)
qed (simp_all add: generate_guard_time_duration_def generate_bti_duration_def
      generate_bft_duration_def generate_cts_duration_def generate_ack_duration_def
      get_guard_time_duration_def get_bti_duration_def get_bft_duration_def
      get_cts_duration_def get_ack_duration_def check_existence_and_return_duration_def)

theorem getter_raises_before_and_returns_after_witness:
  "get_duration Guard_time (run_calls Map.empty [Generate_cts, Generate_ack 1]
       DurationGenerator_init) = Inl AttributeError
   \<and> get_duration BTI (run_calls Map.empty [Generate_cts, Generate_ack 1]
       DurationGenerator_init) = Inl Unset_duration
   \<and> get_duration CTS (run_calls Map.empty [Generate_cts, Generate_ack 1]
       DurationGenerator_init) = Inr 14059
   \<and> get_guard_time_duration (generate_guard_time_duration 100000000 DurationGenerator_init)
       = Inr 6000"
proof -
  have "\<forall>c \<in> set [Generate_cts, Generate_ack 1]. kind_of c \<noteq> Guard_time"
    and "\<forall>c \<in> set [Generate_cts, Generate_ack 1]. kind_of c \<noteq> BTI"
    by simp_all
  moreover have "get_duration CTS (run_calls Map.empty [Generate_cts, Generate_ack 1]
       DurationGenerator_init) = Inr 14059"
    and "guard_time_value 100000000 = 6000"
    by code_simp+
  ultimately show ?thesis
    using getter_raises_before_and_returns_after
      [of "[Generate_cts, Generate_ack 1]" Guard_time Map.empty _ DurationGenerator_init
          _ 100000000]
      getter_raises_before_and_returns_after
      [of "[Generate_cts, Generate_ack 1]" BTI Map.empty _ DurationGenerator_init]
    by simp
qed

section \<open>The studies on the example inputs\<close>

lemma example_frame_sizes:
  "calc_a_msdu_length 1 1500 = Inr 1500"
  "calc_data_mpdu_length 1500 None = 1516"
  "calc_a_mpdu_length 1 1516 = 1516"
  "calc_data_frame_ppdu_size 1516 1 (1 / 2) = Inr 32576"
  "py_round (32576 / SYMBOL_RATE_GHZ) = 18509"
  by code_simp+

lemma example_durations:
  "cts_value = 14059" "ack_value 1 = 13186"
  "bft_value 1 8 1 8 False False = 55700"
  "guard_time_value 117000 = 4000" "guard_time_value 200000 = 4000"
  "bti_value 1 = 43441" "bti_value 2 = 45623"
  by code_simp+

lemma example_periods:
  "bft_period_of 1 117000 8 Static = Inr 117001"
  "bft_period_of 2 200000 8 Static = Inr 400001"
  "bft_period_of 10 100000000 8 (Angular 90) = Inr 500000000"
  by code_simp+

lemma example_allocations:
  "get_number_of_bft_allocations 0 1 117000 117001 1
     = ([No_BFT_allocations 117001 117000], Inr [1])"
  "get_number_of_bft_allocations 0 2 200000 400001 1
     = ([No_BFT_allocations 400001 400000], Inr [1, 0])"
  "get_number_of_bft_allocations (Suc 0) 2 200000 400001 1
     = ([No_BFT_allocations 400001 400000], Inr [0, 1])"
  by code_simp+

lemma example_setup:
  "InOutStudy_setup 0 example_mcs_table (\<lambda>_ _. Inr 1) 117000 1 example_config
     = ([No_BFT_allocations 117001 117000], Inr (example_study 117000 1 [1]))"
  "InOutStudy_setup 0 example_mcs_table (\<lambda>_ _. Inr 1) 200000 2 example_config
     = ([No_BFT_allocations 400001 400000], Inr (example_study 200000 2 [1, 0]))"
  "InOutStudy_setup (Suc 0) example_mcs_table (\<lambda>_ _. Inr 1) 200000 2 example_config
     = ([No_BFT_allocations 400001 400000], Inr (example_study 200000 2 [0, 1]))"
  by (simp_all add: InOutStudy_setup_def example_config_def example_mcs_table_def
      example_study_def example_dg_def example_frame_sizes example_durations example_periods
      example_allocations and_then_def
      generate_cts_duration_def generate_bft_duration_def generate_ack_duration_def
      generate_data_ppdu_duration_def generate_data_with_overhead_duration_def
      get_data_ppdu_duration_def get_cts_duration_def get_ack_duration_def
      check_existence_and_return_duration_def DurationGenerator_init_def
      SIFS_NS_def DIFS_NS_def)

lemma example_fields:
  "bi_duration (example_study bi n a) = bi" "num_of_observed_bi (example_study bi n a) = n"
  "num_of_data_allocations (example_study bi n a) = map (\<lambda>k. k + 1) a"
  "num_of_bft_allocations (example_study bi n a) = a"
  "dg (example_study bi n a) = example_dg" "msdu_length_bytes (example_study bi n a) = 1500"
  "enable_cts (example_study bi n a) = False" "enable_ack (example_study bi n a) = True"
  "num_of_a_msdu_subframes (example_study bi n a) = 1"
  "num_of_a_mpdu_subframes (example_study bi n a) = 1"
  "num_of_users (example_study bi n a) = 1" "mcs (example_study bi n a) = 1"
  by (simp_all add: example_study_def)

lemma example_periods_of_study:
  "psdu_arrival_period (example_study bi n a) = Inr 47695"
  "first_psdu_arrival_offset (example_study bi n a) = Inr 18509"
  by (simp_all add: psdu_arrival_period_def first_psdu_arrival_offset_def example_study_def
      example_dg_def and_then_def get_cts_duration_def get_data_ppdu_duration_def
      get_ack_duration_def check_existence_and_return_duration_def SIFS_NS_def DIFS_NS_def)

lemma example_arrivals_in_bi:
  "arrivals_in_bi (example_study 200000 2 [1, 0]) 47695 18509 4000 47441 196000 1
     = Inr [65950, 113645, 161340]"
  "arrivals_in_bi (example_study 200000 2 [1, 0]) 47695 18509 4000 49623 196000 2
     = Inr [68132, 346341 / 2]"
  "arrivals_in_bi (example_study 200000 2 [0, 1]) 47695 18509 4000 47441 196000 1
     = Inr [65950, 113645, 161340]"
  "arrivals_in_bi (example_study 200000 2 [0, 1]) 47695 18509 4000 49623 196000 2
     = Inr [68132, 346341 / 2]"
  by code_simp+

lemma example_unique:
  "np_unique_index [2, 1] = [(1, 1), (2, 0)]" "np_unique_index [1, 2] = [(1, 0), (2, 1)]"
  by code_simp+

lemma example_fast_run:
  "FastInOutStudy_run (example_study 200000 2 [1, 0])
     = Inr (Some [68132, 346341 / 2, 265950, 313645, 361340])"
  "FastInOutStudy_run (example_study 200000 2 [0, 1])
     = Inr (Some [65950, 113645, 161340, 268132, 746341 / 2])"
  using example_arrivals_in_bi
  by (simp_all add: FastInOutStudy_run_def example_periods_of_study example_unique
      example_durations and_then_def Let_def example_fields)

lemma example_fast_metrics:
  "FastInOutStudy_calc_performance_metrics (example_study 200000 2 [1, 0])
     (Some [68132, 346341 / 2, 265950, 313645, 361340])
   = Inr \<lparr>throughput = 3 / 20,
           t_msdu_generated = [- 18509, 61491, 141491, 221491, 301491],
           t_msdu_arrival = [68132, 346341 / 2, 265950, 313645, 361340]\<rparr>"
  "FastInOutStudy_calc_performance_metrics (example_study 200000 2 [0, 1])
     (Some [65950, 113645, 161340, 268132, 746341 / 2])
   = Inr \<lparr>throughput = 3 / 20,
           t_msdu_generated = [- 18509, 61491, 141491, 221491, 301491],
           t_msdu_arrival = [65950, 113645, 161340, 268132, 746341 / 2]\<rparr>"
  by code_simp+

lemma example_descriptive_short:
  "DescriptiveInOutStudy_run (example_study 117000 1 [1]) =
     Inr (ResponsibleTimeslot ''CH'' 0 117000 []
            [ResponsibleTimeslot ''BI'' 0 117000
               [(45623, 49623), (98923 / 2, 106923 / 2), (218323 / 2, 226323 / 2),
                (113000, 117000)]
               [Timeslot ''BTI'' 0 45623, Timeslot ''SP-BFT'' (106923 / 2) 55700,
                ResponsibleTimeslot ''SP-DATA'' 49623 (- (323 / 2)) [(49623, 98923 / 2)] [],
                ResponsibleTimeslot ''SP-DATA'' (226323 / 2) (- (323 / 2))
                  [(226323 / 2, 113000)] []]],
          0)"
  by code_simp

section \<open>The reversed request\<close>

text \<open>
  C2. The tracker is to stay sorted and non-overlapping, and its free time is never to
  grow. The code breaks both for a request whose end precedes its start: both end points
  of (7,3) lie in (0,10), so the request is accepted as an interior match and leaves the
  ranges (0,7) and (3,10), which overlap and together hold more free time than before.
  The descriptive study issues such a request itself. With a beacon interval of
  117000 ns the free range before the beamforming slot, (45623, 53461.5), is shorter
  than two guard times of 4000 ns; its data service period gets the duration -161.5
  and is entered as the request (49623, 49461.5), and the tracker of the beacon interval
  ends with the overlapping ranges (45623, 49623) and (49461.5, 53461.5).
\<close>

theorem allocate_reversed_request:
  "sorted_disjoint (AvailableTime (0::int) 10)
   \<and> allocate_available_time (AvailableTime (0::int) 10) 7 3 = Inr [(0, 7), (3, 10)]
   \<and> \<not> sorted_disjoint [(0::int, 7), (3, 10)]
   \<and> free_total (AvailableTime (0::int) 10) < free_total [(0, 7), (3, 10)]
   \<and> InOutStudy_setup 0 example_mcs_table (\<lambda>_ _. Inr 1) 117000 1 example_config
       = ([No_BFT_allocations 117001 117000], Inr (example_study 117000 1 [1]))
   \<and> DescriptiveInOutStudy_run (example_study 117000 1 [1]) =
       Inr (ResponsibleTimeslot ''CH'' 0 117000 []
              [ResponsibleTimeslot ''BI'' 0 117000
                 [(45623, 49623), (98923 / 2, 106923 / 2), (218323 / 2, 226323 / 2),
                  (113000, 117000)]
                 [Timeslot ''BTI'' 0 45623, Timeslot ''SP-BFT'' (106923 / 2) 55700,
                  ResponsibleTimeslot ''SP-DATA'' 49623 (- (323 / 2)) [(49623, 98923 / 2)] [],
                  ResponsibleTimeslot ''SP-DATA'' (226323 / 2) (- (323 / 2))
                    [(226323 / 2, 113000)] []]],
            0)
   \<and> \<not> sorted_disjoint [(45623 :: rat, 49623), (98923 / 2, 106923 / 2),
                          (218323 / 2, 226323 / 2), (113000, 117000)]"
proof -
  have "sorted_disjoint (AvailableTime (0::int) 10)
      \<and> allocate_available_time (AvailableTime (0::int) 10) 7 3 = Inr [(0, 7), (3, 10)]
      \<and> \<not> sorted_disjoint [(0::int, 7), (3, 10)]
      \<and> free_total (AvailableTime (0::int) 10) < free_total [(0, 7), (3, 10)]"
    by code_simp
  moreover have "\<not> sorted_disjoint [(45623 :: rat, 49623), (98923 / 2, 106923 / 2),
                          (218323 / 2, 226323 / 2), (113000, 117000)]"
    by code_simp
  ultimately show ?thesis
    using example_setup(1) example_descriptive_short by simp
qed

section \<open>The draw of the beamforming fallback\<close>

lemma same_allocations:
  "\<not> p > n * bi \<Longrightarrow>
     get_number_of_bft_allocations d1 n bi p u = get_number_of_bft_allocations d2 n bi p u"
  by (simp add: get_number_of_bft_allocations_def)

text \<open>
  C5, as amended. When the beamforming period does not exceed the observed time, so
  that the fallback of \<^verbatim>\<open>get_number_of_bft_allocations\<close> is not taken, a complete run
  of the fast study does not depend on the random generator: for the same tables,
  interval duration, number of intervals and configuration it gives the same notices,
  the same exception or the same scheme, throughput and arrays of time stamps,
  whatever number a draw would return.
\<close>

theorem run_independent_of_draw:
  assumes "\<forall>p. bft_period_of n bi (cfg_num_of_antenna_sectors c) (cfg_mobility c) = Inr p
             \<longrightarrow> p \<le> n * bi"
  shows "simulate_fast d1 tbl sel bi n c = simulate_fast d2 tbl sel bi n c"
proof -
  have "InOutStudy_setup d1 tbl sel bi n c = InOutStudy_setup d2 tbl sel bi n c"
  proof (cases "bft_period_of n bi (cfg_num_of_antenna_sectors c) (cfg_mobility c)")
    case (Inl e)
    then show ?thesis by (simp add: InOutStudy_setup_def split: sum.splits)
  next
    case (Inr p)
    with assms have "\<not> p > n * bi" by simp
    then have eq: "get_number_of_bft_allocations d1 n bi p (cfg_num_of_users c)
        = get_number_of_bft_allocations d2 n bi p (cfg_num_of_users c)"
      by (rule same_allocations)
    show ?thesis
      unfolding InOutStudy_setup_def Inr sum.case eq by (rule refl)
  qed
  then show ?thesis by (simp add: simulate_fast_def)
qed

theorem run_independent_of_draw_witness:
  "bft_period_of 10 100000000 8 (Angular 90) = Inr 500000000
   \<and> (500000000::int) \<le> 10 * 100000000
   \<and> simulate_fast 0 example_mcs_table (\<lambda>_ _. Inr 1) 100000000 10
        (example_config\<lparr>cfg_mobility := Angular 90\<rparr>)
     = simulate_fast 7 example_mcs_table (\<lambda>_ _. Inr 1) 100000000 10
        (example_config\<lparr>cfg_mobility := Angular 90\<rparr>)"
proof -
  have "\<forall>p. bft_period_of 10 100000000
        (cfg_num_of_antenna_sectors (example_config\<lparr>cfg_mobility := Angular 90\<rparr>))
        (cfg_mobility (example_config\<lparr>cfg_mobility := Angular 90\<rparr>)) = Inr p
      \<longrightarrow> p \<le> 10 * 100000000"
    by (simp add: example_config_def example_periods)
  from run_independent_of_draw [OF this] example_periods(3) show ?thesis by simp
qed

text \<open>
  C5 as stated fails when the fallback is taken, as it is in every run without
  mobility. Two runs on the same inputs, two beacon intervals of 200000 ns, place the
  single beamforming allocation in the interval that \<^verbatim>\<open>np.random.randint\<close> returns:
  with the draw 0 the first interval holds two data service periods and the second
  one, with the draw 1 it is the other way round, and the arrays of arrival times
  differ. The scheme and the throughput are the same in both runs.
\<close>

theorem run_depends_on_draw_counterexample:
  "simulate_fast 0 example_mcs_table (\<lambda>_ _. Inr 1) 200000 2 example_config
     = ([No_BFT_allocations 400001 400000],
        Inr (1, \<lparr>throughput = 3 / 20,
                  t_msdu_generated = [- 18509, 61491, 141491, 221491, 301491],
                  t_msdu_arrival = [68132, 346341 / 2, 265950, 313645, 361340]\<rparr>))
   \<and> simulate_fast 1 example_mcs_table (\<lambda>_ _. Inr 1) 200000 2 example_config
     = ([No_BFT_allocations 400001 400000],
        Inr (1, \<lparr>throughput = 3 / 20,
                  t_msdu_generated = [- 18509, 61491, 141491, 221491, 301491],
                  t_msdu_arrival = [65950, 113645, 161340, 268132, 746341 / 2]\<rparr>))
   \<and> simulate_fast 0 example_mcs_table (\<lambda>_ _. Inr 1) 200000 2 example_config
     \<noteq> simulate_fast 1 example_mcs_table (\<lambda>_ _. Inr 1) 200000 2 example_config"
  by (simp add: simulate_fast_def example_setup example_fast_run example_fast_metrics
      and_then_def example_fields)

section \<open>The two studies compared\<close>

subsection \<open>Results of calls in sequence\<close>





subsection \<open>The transmissions of the descriptive study\<close>







subsection \<open>The arrivals of the fast study\<close>














subsection \<open>Rounding\<close>






subsection \<open>One beacon interval\<close>





subsection \<open>A complete run\<close>


















end
